theory Spec2Isabelle
  imports Complex_Main
begin

section \<open>The drum sequencer: data model\<close>

text \<open>
  The sequencer API of \<^verbatim>\<open>src/index.js\<close> consists of three classes, \<^verbatim>\<open>Sound\<close>,
  \<^verbatim>\<open>Channel\<close> and \<^verbatim>\<open>Sequencer\<close>. Their instances are JavaScript objects: they are
  mutated in place, a \<^verbatim>\<open>Sequencer\<close> holds references to its channels, a \<^verbatim>\<open>Channel\<close>
  holds a reference to its sound, and the timer callbacks capture \<^verbatim>\<open>this\<close>. The model
  therefore keeps the objects in a store: a reference is an address, and the store maps
  every address to the object found there. Every method takes the address of
  \<^verbatim>\<open>this\<close> and the world, and returns the world after the call, or an outcome where the
  call can throw.

  JavaScript numbers are modelled as exact reals; the rounding of IEEE doubles and the
  values \<^verbatim>\<open>Infinity\<close> and \<^verbatim>\<open>NaN\<close> are not modelled. The cursor \<^verbatim>\<open>beat\<close> only ever
  holds natural numbers and is a \<open>nat\<close>.
\<close>

type_synonym ref = nat

text \<open>The \<^verbatim>\<open>HTMLAudioElement\<close> behind a \<^verbatim>\<open>Sound\<close>: the fields the code touches.\<close>

record Audio =
  src :: string
  playbackRate :: real
  volume :: real
  paused :: bool
  currentTime :: real

record Sound =
  audio :: Audio
  name :: string

datatype Event = Event string

text \<open>
  A \<^verbatim>\<open>Channel\<close> has a setter \<^verbatim>\<open>bpm\<close> and no getter: the tempo itself is not stored, only
  the \<^verbatim>\<open>duration\<close> derived from it. \<^verbatim>\<open>events\<close> is a JavaScript array with holes, and
  \<^verbatim>\<open>interval\<close> is \<^verbatim>\<open>undefined\<close> until \<^verbatim>\<open>loop\<close> has run.
\<close>

record Channel =
  sound :: ref
  sequence :: "int list"
  beat :: nat
  duration :: real
  events :: "nat \<Rightarrow> Event option"
  interval :: "nat option"

text \<open>\<open>priv_bpm\<close> is the field \<^verbatim>\<open>__bpm\<close> behind the getter and setter \<^verbatim>\<open>bpm\<close>.\<close>

record Sequencer =
  channels :: "ref list"
  priv_bpm :: real

text \<open>
  The browser: the table of active timers (\<^verbatim>\<open>setTimeout\<close> and \<^verbatim>\<open>setInterval\<close> share one
  pool of handles), and the trace of what the program did to the outside, in order: the
  events it dispatched on \<^verbatim>\<open>document\<close> and the calls of \<^verbatim>\<open>play\<close> and \<^verbatim>\<open>pause\<close> on audio
  elements. \<open>AudioPlay r v\<close> is \<^verbatim>\<open>play()\<close> on the audio element of the sound at \<open>r\<close>, whose
  volume is \<open>v\<close> at that moment.
\<close>

datatype callback = Sound_stop_cb ref | Channel_playBeat_cb ref

record timer =
  handle :: nat
  delay :: real
  repeating :: bool
  callback :: callback

datatype effect = Dispatch Event | AudioPlay ref real | AudioPause ref

datatype error = IndexSizeError

record world =
  sounds :: "ref \<Rightarrow> Sound"
  chans :: "ref \<Rightarrow> Channel"
  seqs :: "ref \<Rightarrow> Sequencer"
  timers :: "timer list"
  next_handle :: nat
  trace :: "effect list"

type_synonym outcome = "(error \<times> world) + world"

subsection \<open>Store updates\<close>

definition upd_audio :: "ref \<Rightarrow> (Audio \<Rightarrow> Audio) \<Rightarrow> world \<Rightarrow> world" where
  "upd_audio r f w = w\<lparr>sounds := (sounds w)(r := (sounds w r)\<lparr>audio := f (audio (sounds w r))\<rparr>)\<rparr>"

definition upd_sound :: "ref \<Rightarrow> (Sound \<Rightarrow> Sound) \<Rightarrow> world \<Rightarrow> world" where
  "upd_sound r f w = w\<lparr>sounds := (sounds w)(r := f (sounds w r))\<rparr>"

definition upd_chan :: "ref \<Rightarrow> (Channel \<Rightarrow> Channel) \<Rightarrow> world \<Rightarrow> world" where
  "upd_chan c f w = w\<lparr>chans := (chans w)(c := f (chans w c))\<rparr>"

definition upd_seq :: "ref \<Rightarrow> (Sequencer \<Rightarrow> Sequencer) \<Rightarrow> world \<Rightarrow> world" where
  "upd_seq q f w = w\<lparr>seqs := (seqs w)(q := f (seqs w q))\<rparr>"

definition emit :: "effect \<Rightarrow> world \<Rightarrow> world" where
  "emit e w = w\<lparr>trace := trace w @ [e]\<rparr>"

subsection \<open>The browser's timers and events\<close>

text \<open>
  \<^verbatim>\<open>setTimeout\<close> and \<^verbatim>\<open>setInterval\<close> enter a timer in the table and return its handle.
  \<open>delay\<close> is the number handed over by the caller. \<^verbatim>\<open>clearInterval\<close> removes the timer
  with the given handle, and does nothing for \<^verbatim>\<open>undefined\<close> or an unknown handle.

  The classes of the user interface in the second half of \<^verbatim>\<open>src/index.js\<close> are not
  modelled, so no listener is registered: dispatching an event enters it in the trace and
  does nothing else. \<^verbatim>\<open>play()\<close> on an audio element is taken to succeed.
\<close>

definition setTimeout :: "callback \<Rightarrow> real \<Rightarrow> world \<Rightarrow> nat \<times> world" where
  "setTimeout cb d w =
     (next_handle w,
      w\<lparr>timers := timers w @ [\<lparr>handle = next_handle w, delay = d, repeating = False, callback = cb\<rparr>],
        next_handle := Suc (next_handle w)\<rparr>)"

definition setInterval :: "callback \<Rightarrow> real \<Rightarrow> world \<Rightarrow> nat \<times> world" where
  "setInterval cb d w =
     (next_handle w,
      w\<lparr>timers := timers w @ [\<lparr>handle = next_handle w, delay = d, repeating = True, callback = cb\<rparr>],
        next_handle := Suc (next_handle w)\<rparr>)"

definition clearInterval :: "nat option \<Rightarrow> world \<Rightarrow> world" where
  "clearInterval ho w =
     (case ho of
        None \<Rightarrow> w
      | Some h \<Rightarrow> w\<lparr>timers := filter (\<lambda>t. handle t \<noteq> h) (timers w)\<rparr>)"

definition dispatchEvent :: "Event \<Rightarrow> world \<Rightarrow> world" where
  "dispatchEvent e w = emit (Dispatch e) w"

definition Audio_play :: "ref \<Rightarrow> world \<Rightarrow> world" where
  "Audio_play r w =
     emit (AudioPlay r (volume (audio (sounds w r)))) (upd_audio r (\<lambda>a. a\<lparr>paused := False\<rparr>) w)"

definition Audio_pause :: "ref \<Rightarrow> world \<Rightarrow> world" where
  "Audio_pause r w = emit (AudioPause r) (upd_audio r (\<lambda>a. a\<lparr>paused := True\<rparr>) w)"

definition new_Audio :: "string \<Rightarrow> Audio" where
  "new_Audio url = \<lparr>src = url, playbackRate = 1, volume = 1, paused = True, currentTime = 0\<rparr>"

section \<open>class Sound\<close>

text \<open>
  The setter of \<^verbatim>\<open>playbackRate\<close> throws for a rate the browser does not support; which
  rates those are depends on the browser. The program sets the rates 1 and 2 only, which
  every browser supports, so the setter is modelled for supported rates.
\<close>

definition Sound_set_rate :: "ref \<Rightarrow> real \<Rightarrow> world \<Rightarrow> world" where
  "Sound_set_rate this rate w = upd_audio this (\<lambda>a. a\<lparr>playbackRate := rate\<rparr>) w"

text \<open>
  The setter of \<^verbatim>\<open>volume\<close> on an audio element throws an \<^verbatim>\<open>IndexSizeError\<close> for a value
  outside \<open>[0, 1]\<close> and then changes nothing. A method that can throw returns an outcome:
  \<open>Inr w\<close> is the world after a normal return, \<open>Inl (e, w)\<close> says that \<open>e\<close> was thrown and
  that the world at the throw was \<open>w\<close>. No method of \<^verbatim>\<open>src/index.js\<close> catches an
  exception.
\<close>

definition Sound_set_volume :: "ref \<Rightarrow> real \<Rightarrow> world \<Rightarrow> outcome" where
  "Sound_set_volume this v w =
     (if 0 \<le> v \<and> v \<le> 1 then Inr (upd_audio this (\<lambda>a. a\<lparr>volume := v\<rparr>) w)
      else Inl (IndexSizeError, w))"

text \<open>\<^verbatim>\<open>constructor (url, name, rate = 1)\<close>; an absent argument is \<open>None\<close>.\<close>

definition Sound_constructor :: "ref \<Rightarrow> string \<Rightarrow> string \<Rightarrow> real option \<Rightarrow> world \<Rightarrow> world" where
  "Sound_constructor this url nm rate_opt w =
     (let rate = (case rate_opt of None \<Rightarrow> 1 | Some r \<Rightarrow> r);
          w1 = upd_sound this (\<lambda>s. s\<lparr>audio := new_Audio url\<rparr>) w;
          w2 = Sound_set_rate this rate w1;
          w3 = upd_sound this (\<lambda>s. s\<lparr>name := nm\<rparr>) w2
      in w3)"

text \<open>
  \<^verbatim>\<open>stop\<close> and \<^verbatim>\<open>playBeat\<close> run as the callbacks of timers, and they set only the volumes
  0 and 1. They return a world: were the setter to throw, the exception would end the
  callback there, with the world as it was at the throw.
\<close>

definition Sound_stop :: "ref \<Rightarrow> world \<Rightarrow> world" where
  "Sound_stop this w =
     (case Sound_set_volume this 0 w of
        Inl (e, w') \<Rightarrow> w'
      | Inr w1 \<Rightarrow>
          (let w2 = Audio_pause this w1;
               w3 = upd_audio this (\<lambda>a. a\<lparr>currentTime := 0\<rparr>) w2
           in w3))"

text \<open>\<^verbatim>\<open>play (duration = 1000, volume = 1)\<close>.\<close>

definition Sound_play :: "ref \<Rightarrow> real option \<Rightarrow> real option \<Rightarrow> world \<Rightarrow> outcome" where
  "Sound_play this duration_opt volume_opt w =
     (let d = (case duration_opt of None \<Rightarrow> 1000 | Some x \<Rightarrow> x);
          v = (case volume_opt of None \<Rightarrow> 1 | Some x \<Rightarrow> x)
      in case Sound_set_volume this v w of
           Inl (e, w') \<Rightarrow> Inl (e, w')
         | Inr w1 \<Rightarrow>
             (let w2 = Audio_play this w1;
                  w3 = snd (setTimeout (Sound_stop_cb this) (d - 10) w2)
              in Inr w3))"

section \<open>class Channel\<close>

definition Channel_set_bpm :: "ref \<Rightarrow> real \<Rightarrow> world \<Rightarrow> world" where
  "Channel_set_bpm this bpm w =
     (let w1 = upd_chan this (\<lambda>c. c\<lparr>duration := (60 / bpm) * (1000 / 4)\<rparr>) w
      in if bpm > 60 then Sound_set_rate (sound (chans w1 this)) 2 w1 else w1)"

text \<open>\<^verbatim>\<open>constructor (sound, sequence = new Array(16).fill(0), bpm = 120)\<close>.\<close>

definition Channel_constructor ::
  "ref \<Rightarrow> ref \<Rightarrow> int list option \<Rightarrow> real option \<Rightarrow> world \<Rightarrow> world" where
  "Channel_constructor this snd_ref sequence_opt bpm_opt w =
     (let sq = (case sequence_opt of None \<Rightarrow> replicate 16 0 | Some xs \<Rightarrow> xs);
          bpm = (case bpm_opt of None \<Rightarrow> 120 | Some b \<Rightarrow> b);
          w1 = upd_chan this (\<lambda>c. c\<lparr>sound := snd_ref\<rparr>) w;
          w2 = upd_chan this (\<lambda>c. c\<lparr>sequence := sq\<rparr>) w1;
          w3 = upd_chan this (\<lambda>c. c\<lparr>beat := 0\<rparr>) w2;
          w4 = Channel_set_bpm this bpm w3;
          w5 = upd_chan this (\<lambda>c. c\<lparr>events := (\<lambda>i. None)\<rparr>) w4
      in w5)"

definition Channel_clear :: "ref \<Rightarrow> world \<Rightarrow> world" where
  "Channel_clear this w = upd_chan this (\<lambda>c. c\<lparr>sequence := replicate 16 0\<rparr>) w"

text \<open>
  \<^verbatim>\<open>this.sequence[this.beat]\<close>: reading a JavaScript array past its end gives
  \<^verbatim>\<open>undefined\<close>, here \<open>None\<close>. The cells are numbers; a number is truthy when it is not
  0, and \<^verbatim>\<open>undefined\<close> is falsy.
\<close>

definition cell_at :: "int list \<Rightarrow> nat \<Rightarrow> int option" where
  "cell_at xs i = (if i < length xs then Some (xs ! i) else None)"

fun truthy :: "int option \<Rightarrow> bool" where
  "truthy None = False"
| "truthy (Some v) = (v \<noteq> 0)"

text \<open>
  The template literal \<^verbatim>\<open>`beat-${this.sound.name}-${this.beat}`\<close>. A natural number is
  printed in decimal (the exponent notation JavaScript uses from \<open>10\<^sup>2\<^sup>1\<close> on is not
  modelled; the cursor is bounded by the length of an array).
\<close>

fun string_of_nat :: "nat \<Rightarrow> string" where
  "string_of_nat n =
     (if n < 10 then [''0123456789'' ! n]
      else string_of_nat (n div 10) @ [''0123456789'' ! (n mod 10)])"

declare string_of_nat.simps [simp del]

definition event_name :: "string \<Rightarrow> nat \<Rightarrow> string" where
  "event_name nm i = ''beat-'' @ nm @ ''-'' @ string_of_nat i"

definition Channel_playBeat :: "ref \<Rightarrow> world \<Rightarrow> world" where
  "Channel_playBeat this w =
     (let c = chans w this;
          played =
            (if truthy (cell_at (sequence c) (beat c)) then
               (let eventName = event_name (name (sounds w (sound c))) (beat c);
                    ev = (case events c (beat c) of Some e \<Rightarrow> e | None \<Rightarrow> Event eventName);
                    w1 = upd_chan this (\<lambda>c. c\<lparr>events := (events c)((beat c) := Some ev)\<rparr>) w;
                    w2 = dispatchEvent ev w1
                in Sound_play (sound c) (Some (duration c)) None w2)
             else Sound_play (sound c) (Some (duration c)) (Some 0) w)
      in case played of
           Inl (e, w') \<Rightarrow> w'
         | Inr w3 \<Rightarrow>
             (let w4 = upd_chan this (\<lambda>c. c\<lparr>beat := beat c + 1\<rparr>) w3
              in if beat (chans w4 this) \<ge> length (sequence (chans w4 this))
                 then upd_chan this (\<lambda>c. c\<lparr>beat := 0\<rparr>) w4 else w4))"

definition Channel_loop :: "ref \<Rightarrow> world \<Rightarrow> world" where
  "Channel_loop this w =
     (case setInterval (Channel_playBeat_cb this) (duration (chans w this)) w of
        (h, w1) \<Rightarrow> upd_chan this (\<lambda>c. c\<lparr>interval := Some h\<rparr>) w1)"

definition Channel_stop :: "ref \<Rightarrow> world \<Rightarrow> world" where
  "Channel_stop this w =
     (let w1 = clearInterval (interval (chans w this)) w
      in upd_chan this (\<lambda>c. c\<lparr>beat := 0\<rparr>) w1)"

section \<open>class Sequencer\<close>

text \<open>\<^verbatim>\<open>this.channels.forEach(c => ...)\<close> runs the body on the channels in order.\<close>

definition Sequencer_play :: "ref \<Rightarrow> world \<Rightarrow> world" where
  "Sequencer_play this w = fold Channel_loop (channels (seqs w this)) w"

definition Sequencer_stop :: "ref \<Rightarrow> world \<Rightarrow> world" where
  "Sequencer_stop this w = fold Channel_stop (channels (seqs w this)) w"

definition Sequencer_get_bpm :: "ref \<Rightarrow> world \<Rightarrow> real" where
  "Sequencer_get_bpm this w = priv_bpm (seqs w this)"

definition Sequencer_set_bpm :: "ref \<Rightarrow> real \<Rightarrow> world \<Rightarrow> world" where
  "Sequencer_set_bpm this bpm w =
     (let w1 = upd_seq this (\<lambda>s. s\<lparr>priv_bpm := bpm\<rparr>) w
      in fold (\<lambda>c. Channel_set_bpm c bpm) (channels (seqs w1 this)) w1)"

text \<open>\<^verbatim>\<open>constructor (channels, bpm = 120)\<close>.\<close>

definition Sequencer_constructor :: "ref \<Rightarrow> ref list \<Rightarrow> real option \<Rightarrow> world \<Rightarrow> world" where
  "Sequencer_constructor this cs bpm_opt w =
     (let bpm = (case bpm_opt of None \<Rightarrow> 120 | Some b \<Rightarrow> b);
          w1 = upd_seq this (\<lambda>s. s\<lparr>channels := cs\<rparr>) w
      in Sequencer_set_bpm this bpm w1)"


section \<open>The instance built by the page\<close>

text \<open>
  Before any object is constructed, the store holds blank objects and the browser has no
  timer. The last part of \<^verbatim>\<open>src/index.js\<close> constructs eight sounds, one channel for each,
  and one sequencer, all with the default arguments, and then replaces four patterns.
  The sound and the channel made from the \<open>i\<close>-th name live at address \<open>i\<close>.
\<close>

definition empty_world :: world where
  "empty_world =
     \<lparr>sounds = (\<lambda>r. \<lparr>audio = new_Audio [], name = []\<rparr>),
      chans = (\<lambda>r. \<lparr>sound = 0, sequence = [], beat = 0, duration = 0,
                     events = (\<lambda>i. None), interval = None\<rparr>),
      seqs = (\<lambda>r. \<lparr>channels = [], priv_bpm = 0\<rparr>),
      timers = [], next_handle = 1, trace = []\<rparr>"

definition sound_names :: "string list" where
  "sound_names =
     [''hat'', ''kick'', ''snare'', ''tom'', ''hat-open'', ''ride'', ''sidestick'', ''ride-bell'']"

definition page_world :: world where
  "page_world =
     (let w1 = fold (\<lambda>(i, s). Sound_constructor i (''sounds/'' @ s @ ''.wav'') s None)
                 (enumerate 0 sound_names) empty_world;
          w2 = fold (\<lambda>i. Channel_constructor i i None None) [0..<8] w1;
          w3 = Sequencer_constructor 0 [0..<8] None w2;
          w4 = upd_chan 0 (\<lambda>c. c\<lparr>sequence := [1, 0, 1, 1, 1, 0, 1, 1, 1, 0, 1, 1, 1, 1, 1, 1]\<rparr>) w3;
          w5 = upd_chan 1 (\<lambda>c. c\<lparr>sequence := [1, 0, 0, 0, 0, 0, 1, 0, 0, 0, 0, 0, 0, 0, 0, 0]\<rparr>) w4;
          w6 = upd_chan 2 (\<lambda>c. c\<lparr>sequence := [0, 0, 0, 0, 1, 0, 0, 0, 0, 0, 0, 0, 1, 0, 0, 0]\<rparr>) w5;
          w7 = upd_chan 7 (\<lambda>c. c\<lparr>sequence := [1, 0, 1, 0, 1, 0, 1, 1, 0, 1, 0, 1, 1, 0, 1, 0]\<rparr>) w6
      in w7)"

text \<open>
  The page's world after channel 5 has been given a pattern of three cells while its
  cursor stood at 7.
\<close>

definition short_pattern_world :: world where
  "short_pattern_world = upd_chan 5 (\<lambda>c. c\<lparr>sequence := [1, 1, 0], beat := 7\<rparr>) page_world"

text \<open>
  Two sounds, their channels and a sequencer, all constructed with the tempo 50 in place
  of the default.
\<close>

definition slow_world :: world where
  "slow_world =
     (let w1 = Sound_constructor 0 ''sounds/hat.wav'' ''hat'' None empty_world;
          w2 = Sound_constructor 1 ''sounds/kick.wav'' ''kick'' None w1;
          w3 = Channel_constructor 0 0 None (Some 50) w2;
          w4 = Channel_constructor 1 1 None (Some 50) w3
      in Sequencer_constructor 0 [0, 1] (Some 50) w4)"

text \<open>The page's world after twelve ticks of channel 0: its cursor stands at 12.\<close>

definition twelve_ticks_world :: world where
  "twelve_ticks_world = (Channel_playBeat 0 ^^ 12) page_world"

text \<open>
  The page's world while playing: the sequencer has been started, and then channel 0 has
  ticked twice and channel 1 once.
\<close>

definition playing_world :: world where
  "playing_world =
     Channel_playBeat 1 (Channel_playBeat 0 (Channel_playBeat 0 (Sequencer_play 0 page_world)))"

section \<open>Running a timer\<close>

text \<open>
  What the browser does when a timer becomes due: it looks the timer up by its handle,
  drops it from the table unless it repeats, and runs its callback. The two callbacks of
  \<^verbatim>\<open>src/index.js\<close> are \<^verbatim>\<open>() => this.stop()\<close> in \<^verbatim>\<open>Sound.play\<close> and
  \<^verbatim>\<open>() => { this.playBeat() }\<close> in \<^verbatim>\<open>Channel.loop\<close>. When a timer becomes due is the
  browser's matter: \<open>delay\<close> is the delay asked for, and a callback never runs before the
  call that set the timer has returned.
\<close>

fun run_callback :: "callback \<Rightarrow> world \<Rightarrow> world" where
  "run_callback (Sound_stop_cb r) w = Sound_stop r w"
| "run_callback (Channel_playBeat_cb c) w = Channel_playBeat c w"

definition fire_timer :: "nat \<Rightarrow> world \<Rightarrow> world" where
  "fire_timer h w =
     (case find (\<lambda>t. handle t = h) (timers w) of
        None \<Rightarrow> w
      | Some t \<Rightarrow>
          run_callback (callback t)
            (if repeating t then w
             else w\<lparr>timers := filter (\<lambda>u. handle u \<noteq> h) (timers w)\<rparr>))"

section \<open>A clock for the timers\<close>

text \<open>
  A call made from the console, like the callback of a timer, is a task of its own: an
  exception that nothing catches ends the task and leaves the world as it was at the
  throw. \<open>play_task\<close> is \<^verbatim>\<open>Sound.play\<close> run as such a task.
\<close>

definition uncaught :: "outcome \<Rightarrow> world" where
  "uncaught r = (case r of Inl (e, w) \<Rightarrow> w | Inr w \<Rightarrow> w)"

definition play_task :: "ref \<Rightarrow> real option \<Rightarrow> real option \<Rightarrow> world \<Rightarrow> world" where
  "play_task r duration_opt volume_opt w = uncaught (Sound_play r duration_opt volume_opt w)"

text \<open>
  The timer rules of the browser with a clock, in milliseconds. A task runs at the time the
  clock shows and takes no time; the timers it sets are set at that time. A timer with the
  delay \<open>x\<close> is due \<open>max 0 x\<close> after it was set (or, when it repeats, after it last ran): the
  browser counts a delay below 0 as 0. The event loop runs a timer when it is due, or at
  once when the clock is already past that moment. This is the best a browser does: it
  never runs a timer before it is due, and how much later than that a loaded browser runs
  it is not modelled.
\<close>

record timed =
  clock :: real
  set_at :: "nat \<Rightarrow> real"
  inner :: world

definition run_task :: "(world \<Rightarrow> world) \<Rightarrow> timed \<Rightarrow> timed" where
  "run_task f tw =
     (let w = inner tw;
          w' = f w
      in tw\<lparr>inner := w',
            set_at := (\<lambda>h. if next_handle w \<le> h \<and> h < next_handle w' then clock tw
                            else set_at tw h)\<rparr>)"

definition due :: "timed \<Rightarrow> timer \<Rightarrow> real" where
  "due tw t = set_at tw (handle t) + max 0 (delay t)"

definition run_timer :: "nat \<Rightarrow> timed \<Rightarrow> timed" where
  "run_timer h tw =
     (case find (\<lambda>t. handle t = h) (timers (inner tw)) of
        None \<Rightarrow> tw
      | Some t \<Rightarrow>
          (let moment = max (clock tw) (due tw t)
           in run_task (fire_timer h)
                (tw\<lparr>clock := moment, set_at := (set_at tw)(h := moment)\<rparr>)))"

text \<open>The page's world when the clock starts.\<close>

definition page_timed :: timed where
  "page_timed = \<lparr>clock = 0, set_at = (\<lambda>h. 0), inner = page_world\<rparr>"

section \<open>Observations and invariants\<close>

text \<open>
  What one tick of a channel puts in the trace, for a sound at \<open>s\<close> named \<open>nm\<close>, a pattern
  \<open>sq\<close> and a cursor \<open>i\<close>: a notification and an audible firing, or a firing at level 0.
\<close>

definition tick_effects :: "string \<Rightarrow> ref \<Rightarrow> int list \<Rightarrow> nat \<Rightarrow> effect list" where
  "tick_effects nm s sq i =
     (if truthy (cell_at sq i) then [Dispatch (Event (event_name nm i)), AudioPlay s 1]
      else [AudioPlay s 0])"

text \<open>
  Reading a decimal numeral back: it is used to show that the name of an event determines
  the index it was made from.
\<close>

definition digit_value :: "char \<Rightarrow> nat" where
  "digit_value ch = of_char ch - 48"

definition nat_of_string :: "string \<Rightarrow> nat" where
  "nat_of_string s = foldl (\<lambda>a ch. 10 * a + digit_value ch) 0 s"

text \<open>The notifications in a trace, in order.\<close>

fun notifications :: "effect list \<Rightarrow> Event list" where
  "notifications [] = []"
| "notifications (Dispatch e # es) = e # notifications es"
| "notifications (AudioPlay r v # es) = notifications es"
| "notifications (AudioPause r # es) = notifications es"

text \<open>
  \<^verbatim>\<open>playBeat\<close> creates the event of an index once and keeps it in \<^verbatim>\<open>this.events\<close>. The
  cache is coherent when every event in it carries the name made from the sound's name and
  its index. The constructor leaves the cache empty and no method changes the name of a
  sound, so the cache of a channel is coherent as long as only the methods of the three
  classes touch it.
\<close>

definition events_ok :: "world \<Rightarrow> ref \<Rightarrow> bool" where
  "events_ok w c =
     (\<forall>i e. events (chans w c) i = Some e \<longrightarrow>
        e = Event (event_name (name (sounds w (sound (chans w c)))) i))"

text \<open>The browser never hands out a handle twice.\<close>

definition handles_fresh :: "world \<Rightarrow> bool" where
  "handles_fresh w = (\<forall>t \<in> set (timers w). handle t < next_handle w)"

text \<open>The step duration of every channel of a sequencer agrees with the sequencer's tempo.\<close>

definition tempo_consistent :: "world \<Rightarrow> ref \<Rightarrow> bool" where
  "tempo_consistent w q =
     (\<forall>c \<in> set (channels (seqs w q)).
        duration (chans w c) = (60 / priv_bpm (seqs w q)) * (1000 / 4))"

section \<open>Basic facts\<close>

lemmas upd_defs = upd_audio_def upd_sound_def upd_chan_def upd_seq_def emit_def

lemmas browser_defs = setTimeout_def setInterval_def clearInterval_def dispatchEvent_def
  Audio_play_def Audio_pause_def

lemmas Sound_defs = Sound_set_rate_def Sound_set_volume_def Sound_stop_def Sound_play_def

lemmas tick_defs = Channel_playBeat_def Let_def upd_defs browser_defs Sound_defs

subsection \<open>What one tick changes\<close>

lemma playBeat_beat:
  "beat (chans (Channel_playBeat c w) c) =
     (if length (sequence (chans w c)) \<le> beat (chans w c) + 1 then 0 else beat (chans w c) + 1)"
  by (simp add: tick_defs)

lemma playBeat_sequence: "sequence (chans (Channel_playBeat c w) d) = sequence (chans w d)"
  by (simp add: tick_defs)

lemma playBeat_sound: "sound (chans (Channel_playBeat c w) d) = sound (chans w d)"
  by (simp add: tick_defs)

lemma playBeat_duration: "duration (chans (Channel_playBeat c w) d) = duration (chans w d)"
  by (simp add: tick_defs)

lemma playBeat_interval: "interval (chans (Channel_playBeat c w) d) = interval (chans w d)"
  by (simp add: tick_defs)

lemma playBeat_name: "name (sounds (Channel_playBeat c w) r) = name (sounds w r)"
  by (simp add: tick_defs)

lemma playBeat_seqs: "seqs (Channel_playBeat c w) = seqs w"
  by (simp add: tick_defs)

lemma playBeat_timers:
  "timers (Channel_playBeat c w) =
     timers w @ [\<lparr>handle = next_handle w, delay = duration (chans w c) - 10,
                  repeating = False, callback = Sound_stop_cb (sound (chans w c))\<rparr>]"
  by (simp add: tick_defs)

lemma playBeat_trace:
  "trace (Channel_playBeat c w) =
     trace w @
     (if truthy (cell_at (sequence (chans w c)) (beat (chans w c)))
      then [Dispatch (case events (chans w c) (beat (chans w c)) of
                        Some e \<Rightarrow> e
                      | None \<Rightarrow> Event (event_name (name (sounds w (sound (chans w c))))
                                         (beat (chans w c)))),
            AudioPlay (sound (chans w c)) 1]
      else [AudioPlay (sound (chans w c)) 0])"
  by (simp add: tick_defs)

lemma playBeat_audio:
  "audio (sounds (Channel_playBeat c w) (sound (chans w c))) =
     (audio (sounds w (sound (chans w c))))
       \<lparr>volume := (if truthy (cell_at (sequence (chans w c)) (beat (chans w c))) then 1 else 0),
        paused := False\<rparr>"
  by (simp add: tick_defs)

lemma playBeat_events:
  "events (chans (Channel_playBeat c w) c) =
     (if truthy (cell_at (sequence (chans w c)) (beat (chans w c)))
      then (events (chans w c))
             (beat (chans w c) :=
                Some (case events (chans w c) (beat (chans w c)) of
                        Some e \<Rightarrow> e
                      | None \<Rightarrow> Event (event_name (name (sounds w (sound (chans w c))))
                                         (beat (chans w c)))))
      else events (chans w c))"
  by (simp add: tick_defs)

subsection \<open>The cursor over many ticks\<close>

lemma wrap_is_mod:
  fixes k L :: nat
  assumes "k < L"
  shows "(if L \<le> k + 1 then 0 else k + 1) = (k + 1) mod L"
proof (cases "L \<le> k + 1")
  case True
  with assms have "k + 1 = L" by simp
  then show ?thesis by simp
next
  case False
  then show ?thesis by simp
qed

lemma ticks_sequence:
  "sequence (chans ((Channel_playBeat c ^^ n) w) d) = sequence (chans w d)"
  by (induction n) (simp_all add: playBeat_sequence)

lemma ticks_beat:
  assumes "0 < length (sequence (chans w c))"
      and "beat (chans w c) < length (sequence (chans w c))"
  shows "beat (chans ((Channel_playBeat c ^^ n) w) c) =
           (beat (chans w c) + n) mod length (sequence (chans w c))"
proof (induction n)
  case 0
  from assms show ?case by simp
next
  case (Suc n)
  let ?L = "length (sequence (chans w c))"
  let ?k = "(beat (chans w c) + n) mod ?L"
  have lt: "?k < ?L" using assms(1) by simp
  have step: "beat (chans ((Channel_playBeat c ^^ Suc n) w) c) = (if ?L \<le> ?k + 1 then 0 else ?k + 1)"
    by (simp add: playBeat_beat ticks_sequence Suc.IH)
  have "(if ?L \<le> ?k + 1 then 0 else ?k + 1) = (?k + 1) mod ?L"
    using lt by (rule wrap_is_mod)
  also have "\<dots> = (beat (chans w c) + Suc n) mod ?L"
    by (simp add: mod_Suc_eq)
  finally show ?case using step by simp
qed

subsection \<open>The name of an event determines the voice and the index\<close>

lemma digit_char:
  assumes "k < 10"
  shows "digit_value (''0123456789'' ! k) = k" and "''0123456789'' ! k \<noteq> CHR ''-''"
    and "CHR ''-'' \<noteq> ''0123456789'' ! k"
proof -
  from assms have "k \<in> {0, 1, 2, 3, 4, 5, 6, 7, 8, 9}" by auto
  then show "digit_value (''0123456789'' ! k) = k" and "''0123456789'' ! k \<noteq> CHR ''-''"
    and "CHR ''-'' \<noteq> ''0123456789'' ! k"
    by (auto simp: digit_value_def)
qed

lemma nat_of_string_of_nat: "nat_of_string (string_of_nat n) = n"
proof (induction n rule: string_of_nat.induct)
  case (1 n)
  show ?case
  proof (cases "n < 10")
    case True
    then show ?thesis
      by (subst string_of_nat.simps) (simp add: nat_of_string_def digit_char)
  next
    case False
    with "1" have "nat_of_string (string_of_nat (n div 10)) = n div 10" by simp
    with False show ?thesis
      by (subst string_of_nat.simps) (simp add: nat_of_string_def digit_char)
  qed
qed

lemma string_of_nat_inj:
  assumes "string_of_nat i = string_of_nat j"
  shows "i = j"
proof -
  from assms have "nat_of_string (string_of_nat i) = nat_of_string (string_of_nat j)" by simp
  then show ?thesis by (simp add: nat_of_string_of_nat)
qed

lemma string_of_nat_no_dash: "CHR ''-'' \<notin> set (string_of_nat n)"
proof (induction n rule: string_of_nat.induct)
  case (1 n)
  show ?case
  proof (cases "n < 10")
    case True
    then show ?thesis by (subst string_of_nat.simps) (simp add: digit_char)
  next
    case False
    with "1" have "CHR ''-'' \<notin> set (string_of_nat (n div 10))" by simp
    with False show ?thesis by (subst string_of_nat.simps) (simp add: digit_char)
  qed
qed

lemma takeWhile_dash:
  assumes "CHR ''-'' \<notin> set xs"
  shows "takeWhile (\<lambda>ch. ch \<noteq> CHR ''-'') (xs @ CHR ''-'' # ys) = xs"
  using assms by (induction xs) auto

lemma event_name_inj:
  assumes "event_name nm i = event_name nm' j"
  shows "nm = nm' \<and> i = j"
proof -
  let ?si = "string_of_nat i" and ?sj = "string_of_nat j"
  from assms have eq: "nm @ CHR ''-'' # ?si = nm' @ CHR ''-'' # ?sj"
    by (simp add: event_name_def)
  then have "rev (nm @ CHR ''-'' # ?si) = rev (nm' @ CHR ''-'' # ?sj)" by (rule arg_cong)
  then have r: "rev ?si @ CHR ''-'' # rev nm = rev ?sj @ CHR ''-'' # rev nm'" by simp
  have "rev ?si = takeWhile (\<lambda>ch. ch \<noteq> CHR ''-'') (rev ?si @ CHR ''-'' # rev nm)"
    by (simp add: takeWhile_dash string_of_nat_no_dash)
  also have "\<dots> = takeWhile (\<lambda>ch. ch \<noteq> CHR ''-'') (rev ?sj @ CHR ''-'' # rev nm')"
    by (simp only: r)
  also have "\<dots> = rev ?sj"
    by (simp add: takeWhile_dash string_of_nat_no_dash)
  finally have same: "?si = ?sj" by simp
  then have "i = j" by (rule string_of_nat_inj)
  moreover from eq same have "nm = nm'" by simp
  ultimately show ?thesis by simp
qed

subsection \<open>The trace over many ticks\<close>

lemma ticks_sound: "sound (chans ((Channel_playBeat c ^^ n) w) d) = sound (chans w d)"
  by (induction n) (simp_all add: playBeat_sound)

lemma ticks_name: "name (sounds ((Channel_playBeat c ^^ n) w) r) = name (sounds w r)"
  by (induction n) (simp_all add: playBeat_name)

lemma ticks_duration: "duration (chans ((Channel_playBeat c ^^ n) w) d) = duration (chans w d)"
  by (induction n) (simp_all add: playBeat_duration)

lemma playBeat_events_ok:
  assumes "events_ok w c"
  shows "events_ok (Channel_playBeat c w) c"
  using assms
  by (auto simp: events_ok_def playBeat_events playBeat_name playBeat_sound
           split: if_splits option.splits)

lemma ticks_events_ok:
  assumes "events_ok w c"
  shows "events_ok ((Channel_playBeat c ^^ n) w) c"
  using assms by (induction n) (simp_all add: playBeat_events_ok)

lemma playBeat_trace_ok:
  assumes "events_ok w c"
  shows "trace (Channel_playBeat c w) =
           trace w @ tick_effects (name (sounds w (sound (chans w c)))) (sound (chans w c))
                       (sequence (chans w c)) (beat (chans w c))"
proof (cases "events (chans w c) (beat (chans w c))")
  case None
  then show ?thesis by (simp add: playBeat_trace tick_effects_def)
next
  case (Some e)
  with assms have "e = Event (event_name (name (sounds w (sound (chans w c)))) (beat (chans w c)))"
    by (simp add: events_ok_def)
  with Some show ?thesis by (simp add: playBeat_trace tick_effects_def)
qed

lemma ticks_trace:
  assumes ok: "events_ok w c"
      and pos: "0 < length (sequence (chans w c))"
      and cur: "beat (chans w c) < length (sequence (chans w c))"
  shows "trace ((Channel_playBeat c ^^ n) w) =
           trace w @
           concat (map (\<lambda>j. tick_effects (name (sounds w (sound (chans w c)))) (sound (chans w c))
                               (sequence (chans w c))
                               ((beat (chans w c) + j) mod length (sequence (chans w c))))
                       [0..<n])"
proof (induction n)
  case 0
  show ?case by simp
next
  case (Suc n)
  let ?wn = "(Channel_playBeat c ^^ n) w"
  have okn: "events_ok ?wn c" using ok by (rule ticks_events_ok)
  have "trace ((Channel_playBeat c ^^ Suc n) w) = trace (Channel_playBeat c ?wn)" by simp
  also have "\<dots> = trace ?wn @ tick_effects (name (sounds ?wn (sound (chans ?wn c))))
                       (sound (chans ?wn c)) (sequence (chans ?wn c)) (beat (chans ?wn c))"
    using okn by (rule playBeat_trace_ok)
  also have "\<dots> = trace ?wn @ tick_effects (name (sounds w (sound (chans w c))))
                       (sound (chans w c)) (sequence (chans w c))
                       ((beat (chans w c) + n) mod length (sequence (chans w c)))"
    using pos cur by (simp add: ticks_sound ticks_name ticks_sequence ticks_beat)
  finally show ?case by (simp add: Suc.IH)
qed

lemma silent_ticks_trace:
  assumes "\<forall>i. \<not> truthy (cell_at (sequence (chans w c)) i)"
  shows "trace ((Channel_playBeat c ^^ n) w) = trace w @ replicate n (AudioPlay (sound (chans w c)) 0)"
proof (induction n)
  case 0
  show ?case by simp
next
  case (Suc n)
  let ?wn = "(Channel_playBeat c ^^ n) w"
  have "trace ((Channel_playBeat c ^^ Suc n) w) = trace (Channel_playBeat c ?wn)" by simp
  also have "\<dots> = trace ?wn @ [AudioPlay (sound (chans w c)) 0]"
    using assms by (simp add: playBeat_trace ticks_sequence ticks_sound)
  finally show ?case by (simp add: Suc.IH replicate_append_same)
qed

lemma notifications_append: "notifications (xs @ ys) = notifications xs @ notifications ys"
  by (induction xs rule: notifications.induct) simp_all

lemma notifications_silent: "notifications (replicate n (AudioPlay s v)) = []"
  by (induction n) simp_all

lemma cell_at_zeros: "\<not> truthy (cell_at (replicate n 0) i)"
  by (simp add: cell_at_def)

subsection \<open>What setting the tempo of a channel changes\<close>

lemma set_bpm_chans:
  "chans (Channel_set_bpm c b w) d =
     (if d = c then (chans w c)\<lparr>duration := (60 / b) * (1000 / 4)\<rparr> else chans w d)"
  by (simp add: Channel_set_bpm_def Let_def upd_defs Sound_defs)

lemma set_bpm_sound: "sound (chans (Channel_set_bpm c b w) d) = sound (chans w d)"
  by (simp add: set_bpm_chans)

lemma set_bpm_sounds:
  "sounds (Channel_set_bpm c b w) =
     (if b > 60
      then (sounds w)(sound (chans w c) :=
             (sounds w (sound (chans w c)))
               \<lparr>audio := (audio (sounds w (sound (chans w c))))\<lparr>playbackRate := 2\<rparr>\<rparr>)
      else sounds w)"
  by (simp add: Channel_set_bpm_def Let_def upd_defs Sound_defs)

lemma set_bpm_name: "name (sounds (Channel_set_bpm c b w) r) = name (sounds w r)"
  by (simp add: set_bpm_sounds)

lemma set_bpm_seqs: "seqs (Channel_set_bpm c b w) = seqs w"
  by (simp add: Channel_set_bpm_def Let_def upd_defs Sound_defs)

lemma set_bpm_timers: "timers (Channel_set_bpm c b w) = timers w"
  by (simp add: Channel_set_bpm_def Let_def upd_defs Sound_defs)

lemma set_bpm_next_handle: "next_handle (Channel_set_bpm c b w) = next_handle w"
  by (simp add: Channel_set_bpm_def Let_def upd_defs Sound_defs)

lemma set_bpm_trace: "trace (Channel_set_bpm c b w) = trace w"
  by (simp add: Channel_set_bpm_def Let_def upd_defs Sound_defs)

lemma set_bpm_events_ok:
  assumes "events_ok w c"
  shows "events_ok (Channel_set_bpm d b w) c"
  using assms by (auto simp: events_ok_def set_bpm_chans set_bpm_name)

lemma upt_16: "[0..<16] = [0, 1, 2, 3, 4, 5, 6, 7, 8, 9, 10, 11, 12, 13, 14, 15]"
  by code_simp

subsection \<open>What setting the tempo of a sequencer changes\<close>

lemma fold_set_bpm_chans:
  "chans (fold (\<lambda>c. Channel_set_bpm c b) cs w) d =
     (if d \<in> set cs then (chans w d)\<lparr>duration := (60 / b) * (1000 / 4)\<rparr> else chans w d)"
  by (induction cs arbitrary: w) (auto simp: set_bpm_chans)

lemma fold_set_bpm_seqs: "seqs (fold (\<lambda>c. Channel_set_bpm c b) cs w) = seqs w"
  by (induction cs arbitrary: w) (simp_all add: set_bpm_seqs)

lemma fold_set_bpm_timers: "timers (fold (\<lambda>c. Channel_set_bpm c b) cs w) = timers w"
  by (induction cs arbitrary: w) (simp_all add: set_bpm_timers)

lemma fold_set_bpm_next_handle:
  "next_handle (fold (\<lambda>c. Channel_set_bpm c b) cs w) = next_handle w"
  by (induction cs arbitrary: w) (simp_all add: set_bpm_next_handle)

lemma fold_set_bpm_trace: "trace (fold (\<lambda>c. Channel_set_bpm c b) cs w) = trace w"
  by (induction cs arbitrary: w) (simp_all add: set_bpm_trace)

lemma fold_set_bpm_sounds_slow:
  assumes "\<not> b > 60"
  shows "sounds (fold (\<lambda>c. Channel_set_bpm c b) cs w) = sounds w"
  using assms by (induction cs arbitrary: w) (simp_all add: set_bpm_sounds)

lemma fold_set_bpm_rate_fast:
  assumes "b > 60"
  shows "playbackRate (audio (sounds (fold (\<lambda>c. Channel_set_bpm c b) cs w) r)) =
           (if r \<in> (\<lambda>c. sound (chans w c)) ` set cs then 2
            else playbackRate (audio (sounds w r)))"
proof (induction cs arbitrary: w)
  case Nil
  show ?case by simp
next
  case (Cons x xs)
  have same: "(\<lambda>c. sound (chans (Channel_set_bpm x b w) c)) ` set xs =
      (\<lambda>c. sound (chans w c)) ` set xs"
    by (simp add: set_bpm_sound)
  show ?case
    using assms by (simp add: Cons.IH same set_bpm_sounds)
qed

lemma seq_set_bpm_chans:
  "chans (Sequencer_set_bpm q b w) d =
     (if d \<in> set (channels (seqs w q)) then (chans w d)\<lparr>duration := (60 / b) * (1000 / 4)\<rparr>
      else chans w d)"
  by (simp add: Sequencer_set_bpm_def Let_def fold_set_bpm_chans) (simp add: upd_seq_def)

lemma seq_set_bpm_seqs:
  "seqs (Sequencer_set_bpm q b w) = (seqs w)(q := (seqs w q)\<lparr>priv_bpm := b\<rparr>)"
  by (simp add: Sequencer_set_bpm_def Let_def fold_set_bpm_seqs) (simp add: upd_seq_def)

lemma seq_set_bpm_timers: "timers (Sequencer_set_bpm q b w) = timers w"
  by (simp add: Sequencer_set_bpm_def Let_def fold_set_bpm_timers) (simp add: upd_seq_def)

lemma seq_set_bpm_sounds_slow:
  assumes "\<not> b > 60"
  shows "sounds (Sequencer_set_bpm q b w) = sounds w"
  using assms
  by (simp add: Sequencer_set_bpm_def Let_def fold_set_bpm_sounds_slow) (simp add: upd_seq_def)

lemma seq_set_bpm_rate_fast:
  assumes "b > 60"
  shows "playbackRate (audio (sounds (Sequencer_set_bpm q b w) r)) =
           (if r \<in> (\<lambda>c. sound (chans w c)) ` set (channels (seqs w q)) then 2
            else playbackRate (audio (sounds w r)))"
  using assms
  by (simp add: Sequencer_set_bpm_def Let_def fold_set_bpm_rate_fast) (simp add: upd_seq_def)

subsection \<open>Starting and stopping\<close>

lemma loop_chans:
  "chans (Channel_loop c w) d =
     (if d = c then (chans w c)\<lparr>interval := Some (next_handle w)\<rparr> else chans w d)"
  by (simp add: Channel_loop_def setInterval_def upd_defs)

lemma loop_timers:
  "timers (Channel_loop c w) =
     timers w @ [\<lparr>handle = next_handle w, delay = duration (chans w c), repeating = True,
                  callback = Channel_playBeat_cb c\<rparr>]"
  by (simp add: Channel_loop_def setInterval_def upd_defs)

lemma loop_next_handle: "next_handle (Channel_loop c w) = Suc (next_handle w)"
  by (simp add: Channel_loop_def setInterval_def upd_defs)

lemma loop_seqs: "seqs (Channel_loop c w) = seqs w"
  by (simp add: Channel_loop_def setInterval_def upd_defs)

lemma loop_sounds: "sounds (Channel_loop c w) = sounds w"
  by (simp add: Channel_loop_def setInterval_def upd_defs)

lemma loop_trace: "trace (Channel_loop c w) = trace w"
  by (simp add: Channel_loop_def setInterval_def upd_defs)

lemma stop_chans:
  "chans (Channel_stop c w) d = (if d = c then (chans w c)\<lparr>beat := 0\<rparr> else chans w d)"
  by (simp add: Channel_stop_def clearInterval_def Let_def upd_defs split: option.splits)

lemma stop_timers:
  "timers (Channel_stop c w) = filter (\<lambda>t. interval (chans w c) \<noteq> Some (handle t)) (timers w)"
  by (auto simp: Channel_stop_def clearInterval_def Let_def upd_defs split: option.splits
           intro: filter_cong)

lemma stop_seqs: "seqs (Channel_stop c w) = seqs w"
  by (simp add: Channel_stop_def clearInterval_def Let_def upd_defs split: option.splits)

lemma stop_sounds: "sounds (Channel_stop c w) = sounds w"
  by (simp add: Channel_stop_def clearInterval_def Let_def upd_defs split: option.splits)

lemma stop_trace: "trace (Channel_stop c w) = trace w"
  by (simp add: Channel_stop_def clearInterval_def Let_def upd_defs split: option.splits)

lemma fold_stop_chans:
  "chans (fold Channel_stop cs w) d =
     (if d \<in> set cs then (chans w d)\<lparr>beat := 0\<rparr> else chans w d)"
  by (induction cs arbitrary: w) (auto simp: stop_chans)

lemma fold_stop_timers:
  "timers (fold Channel_stop cs w) =
     filter (\<lambda>t. \<forall>c \<in> set cs. interval (chans w c) \<noteq> Some (handle t)) (timers w)"
proof (induction cs arbitrary: w)
  case Nil
  show ?case by simp
next
  case (Cons x xs)
  have same: "interval (chans (Channel_stop x w) c) = interval (chans w c)" for c
    by (simp add: stop_chans)
  show ?case
    by (simp add: Cons.IH same stop_timers)
qed

lemma fold_stop_seqs: "seqs (fold Channel_stop cs w) = seqs w"
  by (induction cs arbitrary: w) (simp_all add: stop_seqs)

lemma fold_stop_sounds: "sounds (fold Channel_stop cs w) = sounds w"
  by (induction cs arbitrary: w) (simp_all add: stop_sounds)

lemma fold_stop_trace: "trace (fold Channel_stop cs w) = trace w"
  by (induction cs arbitrary: w) (simp_all add: stop_trace)

lemma fold_loop_duration: "duration (chans (fold Channel_loop cs w) d) = duration (chans w d)"
  by (induction cs arbitrary: w) (simp_all add: loop_chans)

lemma fold_loop_seqs: "seqs (fold Channel_loop cs w) = seqs w"
  by (induction cs arbitrary: w) (simp_all add: loop_seqs)

subsection \<open>Firing and stopping a sound\<close>

lemma sound_stop_audio:
  "audio (sounds (Sound_stop r w) r) =
     (audio (sounds w r))\<lparr>volume := 0, paused := True, currentTime := 0\<rparr>"
  by (simp add: Sound_defs Let_def upd_defs browser_defs)

lemma sound_stop_chans: "chans (Sound_stop r w) = chans w"
  by (simp add: Sound_defs Let_def upd_defs browser_defs)

lemma sound_stop_seqs: "seqs (Sound_stop r w) = seqs w"
  by (simp add: Sound_defs Let_def upd_defs browser_defs)

lemma sound_stop_timers: "timers (Sound_stop r w) = timers w"
  by (simp add: Sound_defs Let_def upd_defs browser_defs)

lemma sound_stop_trace: "trace (Sound_stop r w) = trace w @ [AudioPause r]"
  by (simp add: Sound_defs Let_def upd_defs browser_defs)

lemma sound_play_in_range:
  assumes "0 \<le> (case vopt of None \<Rightarrow> 1 | Some x \<Rightarrow> x)"
      and "(case vopt of None \<Rightarrow> 1 | Some x \<Rightarrow> x) \<le> (1::real)"
  obtains w' where "Sound_play r dopt vopt w = Inr w'"
    and "timers w' =
           timers w @ [\<lparr>handle = next_handle w,
                        delay = (case dopt of None \<Rightarrow> 1000 | Some d \<Rightarrow> d) - 10,
                        repeating = False, callback = Sound_stop_cb r\<rparr>]"
    and "audio (sounds w' r) =
           (audio (sounds w r))\<lparr>volume := (case vopt of None \<Rightarrow> 1 | Some x \<Rightarrow> x),
                                 paused := False\<rparr>"
    and "trace w' = trace w @ [AudioPlay r (case vopt of None \<Rightarrow> 1 | Some x \<Rightarrow> x)]"
    and "next_handle w' = Suc (next_handle w)"
    and "chans w' = chans w" and "seqs w' = seqs w"
    and "\<And>s. name (sounds w' s) = name (sounds w s)"
  using assms by (simp add: Sound_defs Let_def upd_defs browser_defs)

lemma sound_play_out_of_range:
  assumes "\<not> (0 \<le> (case vopt of None \<Rightarrow> 1 | Some x \<Rightarrow> x) \<and>
              (case vopt of None \<Rightarrow> 1 | Some x \<Rightarrow> x) \<le> (1::real))"
  shows "Sound_play r dopt vopt w = Inl (IndexSizeError, w)"
  using assms by (simp add: Sound_defs Let_def)

lemma play_task_frame:
  "chans (play_task r dopt vopt w) = chans w" "seqs (play_task r dopt vopt w) = seqs w"
  "name (sounds (play_task r dopt vopt w) s) = name (sounds w s)"
  by (simp_all add: play_task_def uncaught_def Sound_defs Let_def upd_defs browser_defs)

subsection \<open>Timers\<close>

lemma run_callback_duration:
  "duration (chans (run_callback cb w) d) = duration (chans w d)"
  by (cases cb) (simp_all add: sound_stop_chans playBeat_duration)

lemma run_callback_seqs: "seqs (run_callback cb w) = seqs w"
  by (cases cb) (simp_all add: sound_stop_seqs playBeat_seqs)

lemma fire_timer_duration: "duration (chans (fire_timer h w) d) = duration (chans w d)"
  by (simp add: fire_timer_def run_callback_duration split: option.splits)

lemma fire_timer_seqs: "seqs (fire_timer h w) = seqs w"
  by (simp add: fire_timer_def run_callback_seqs split: option.splits)

lemma find_fresh_handle:
  assumes "\<forall>t \<in> set ts. handle t \<noteq> h" and "handle e = h"
  shows "find (\<lambda>t. handle t = h) (ts @ [e]) = Some e"
  using assms by (induction ts) simp_all

lemma tempo_consistent_frame:
  assumes "tempo_consistent w q"
      and "seqs w' = seqs w"
      and "\<And>d. duration (chans w' d) = duration (chans w d)"
  shows "tempo_consistent w' q"
  using assms by (simp add: tempo_consistent_def)

lemma playBeat_chans_other:
  assumes "d \<noteq> c"
  shows "chans (Channel_playBeat c w) d = chans w d"
  using assms by (simp add: tick_defs)

lemma fold_loop_chans_other:
  assumes "d \<notin> set cs"
  shows "chans (fold Channel_loop cs w) d = chans w d"
  using assms by (induction cs arbitrary: w) (simp_all add: loop_chans)

lemma fold_loop_beat: "beat (chans (fold Channel_loop cs w) d) = beat (chans w d)"
  by (induction cs arbitrary: w) (simp_all add: loop_chans)

lemma fold_loop_sequence: "sequence (chans (fold Channel_loop cs w) d) = sequence (chans w d)"
  by (induction cs arbitrary: w) (simp_all add: loop_chans)

lemma fresh_handle_unused:
  assumes "handles_fresh w"
  shows "\<forall>t \<in> set (timers w). handle t \<noteq> next_handle w"
  using assms by (auto simp: handles_fresh_def)

lemma filter_fresh_handle:
  assumes "\<forall>t \<in> set ts. handle t \<noteq> h" and "handle e = h"
  shows "filter (\<lambda>u. handle u \<noteq> h) (ts @ [e]) = ts"
  using assms by (induction ts) simp_all

lemma fire_interval_timer:
  assumes "\<forall>t \<in> set ts. handle t \<noteq> h"
      and "timers w = ts @ [\<lparr>handle = h, delay = d, repeating = True,
                              callback = Channel_playBeat_cb c\<rparr>]"
  shows "fire_timer h w = Channel_playBeat c w"
proof -
  have "find (\<lambda>t. handle t = h) (timers w) =
      Some \<lparr>handle = h, delay = d, repeating = True, callback = Channel_playBeat_cb c\<rparr>"
    unfolding assms(2) using assms(1) by (rule find_fresh_handle) simp
  then show ?thesis by (simp add: fire_timer_def)
qed

lemma fire_timeout_timer:
  assumes "\<forall>t \<in> set ts. handle t \<noteq> h"
      and "timers w = ts @ [\<lparr>handle = h, delay = d, repeating = False,
                              callback = Sound_stop_cb r\<rparr>]"
  shows "fire_timer h w = Sound_stop r (w\<lparr>timers := ts\<rparr>)"
proof -
  let ?e = "\<lparr>handle = h, delay = d, repeating = False, callback = Sound_stop_cb r\<rparr>"
  have "find (\<lambda>t. handle t = h) (timers w) = Some ?e"
    unfolding assms(2) using assms(1) by (rule find_fresh_handle) simp
  moreover have "filter (\<lambda>u. handle u \<noteq> h) (timers w) = ts"
    unfolding assms(2) using assms(1) by (rule filter_fresh_handle) simp
  ultimately show ?thesis by (simp add: fire_timer_def)
qed

subsection \<open>A firing and its stop on the clock\<close>

lemma timed_play_then_stop:
  fixes tw :: timed and r :: ref and dopt vopt :: "real option"
  defines "h \<equiv> next_handle (inner tw)"
  defines "tw1 \<equiv> run_task (play_task r dopt vopt) tw"
  defines "tw2 \<equiv> run_timer h tw1"
  assumes lo: "0 \<le> (case vopt of None \<Rightarrow> 1 | Some x \<Rightarrow> x)"
      and hi: "(case vopt of None \<Rightarrow> 1 | Some x \<Rightarrow> x) \<le> (1::real)"
      and fresh: "handles_fresh (inner tw)"
  shows "clock tw1 = clock tw"
    and "clock tw2 = clock tw + max 0 ((case dopt of None \<Rightarrow> 1000 | Some d \<Rightarrow> d) - 10)"
    and "audio (sounds (inner tw1) r) =
           (audio (sounds (inner tw) r))\<lparr>volume := (case vopt of None \<Rightarrow> 1 | Some x \<Rightarrow> x),
                                          paused := False\<rparr>"
    and "volume (audio (sounds (inner tw2) r)) = 0"
    and "paused (audio (sounds (inner tw2) r))"
    and "currentTime (audio (sounds (inner tw2) r)) = 0"
    and "timers (inner tw2) = timers (inner tw)"
    and "due tw1 \<lparr>handle = h, delay = (case dopt of None \<Rightarrow> 1000 | Some d \<Rightarrow> d) - 10,
                   repeating = False, callback = Sound_stop_cb r\<rparr> =
           clock tw + max 0 ((case dopt of None \<Rightarrow> 1000 | Some d \<Rightarrow> d) - 10)"
proof -
  let ?w = "inner tw"
  let ?e = "\<lparr>handle = h, delay = (case dopt of None \<Rightarrow> 1000 | Some d \<Rightarrow> d) - 10,
             repeating = False, callback = Sound_stop_cb r\<rparr>"
  from lo hi obtain w' where ret: "Sound_play r dopt vopt ?w = Inr w'"
    and tm: "timers w' = timers ?w @ [?e]"
    and au: "audio (sounds w' r) =
           (audio (sounds ?w r))\<lparr>volume := (case vopt of None \<Rightarrow> 1 | Some x \<Rightarrow> x),
                                  paused := False\<rparr>"
    and nh: "next_handle w' = Suc (next_handle ?w)"
    unfolding h_def by (rule sound_play_in_range [of vopt r dopt ?w])
  have task: "play_task r dopt vopt ?w = w'" by (simp add: play_task_def uncaught_def ret)
  have in1: "inner tw1 = w'" by (simp add: tw1_def run_task_def Let_def task)
  show c1: "clock tw1 = clock tw" by (simp add: tw1_def run_task_def Let_def)
  have s1: "set_at tw1 h = clock tw"
    by (simp add: tw1_def run_task_def Let_def task nh h_def)
  show "audio (sounds (inner tw1) r) =
      (audio (sounds (inner tw) r))\<lparr>volume := (case vopt of None \<Rightarrow> 1 | Some x \<Rightarrow> x),
                                     paused := False\<rparr>"
    by (simp add: in1 au)
  have unused: "\<forall>t \<in> set (timers ?w). handle t \<noteq> h"
    unfolding h_def using fresh by (rule fresh_handle_unused)
  have found: "find (\<lambda>t. handle t = h) (timers w') = Some ?e"
    unfolding tm using unused by (rule find_fresh_handle) simp
  have fired: "fire_timer h w' = Sound_stop r (w'\<lparr>timers := timers ?w\<rparr>)"
    using unused tm by (rule fire_timeout_timer)
  have in2: "inner tw2 = Sound_stop r (w'\<lparr>timers := timers ?w\<rparr>)"
    by (simp add: tw2_def run_timer_def in1 found Let_def run_task_def fired)
  show "clock tw2 = clock tw + max 0 ((case dopt of None \<Rightarrow> 1000 | Some d \<Rightarrow> d) - 10)"
    by (simp add: tw2_def run_timer_def in1 found Let_def run_task_def due_def s1 c1)
  show "volume (audio (sounds (inner tw2) r)) = 0" "paused (audio (sounds (inner tw2) r))"
    "currentTime (audio (sounds (inner tw2) r)) = 0"
    by (simp_all add: in2 sound_stop_audio)
  show "timers (inner tw2) = timers (inner tw)"
    by (simp add: in2 sound_stop_timers)
  show "due tw1 ?e = clock tw + max 0 ((case dopt of None \<Rightarrow> 1000 | Some d \<Rightarrow> d) - 10)"
    by (simp add: due_def s1)
qed

subsection \<open>A tempo set past the sequencer\<close>

lemma set_bpm_tempo_consistent:
  assumes "tempo_consistent w q"
  shows "tempo_consistent (Channel_set_bpm c b w) q \<longleftrightarrow>
           (c \<in> set (channels (seqs w q)) \<longrightarrow>
              (60 / b) * (1000 / 4) = (60 / priv_bpm (seqs w q)) * (1000 / 4))"
  using assms by (auto simp: tempo_consistent_def set_bpm_seqs set_bpm_chans)

lemma other_seq_set_bpm_tempo_consistent:
  assumes "tempo_consistent w q" and "q' \<noteq> q"
  shows "tempo_consistent (Sequencer_set_bpm q' b w) q \<longleftrightarrow>
           (\<forall>c \<in> set (channels (seqs w q)).
              c \<in> set (channels (seqs w q')) \<longrightarrow>
              (60 / b) * (1000 / 4) = (60 / priv_bpm (seqs w q)) * (1000 / 4))"
  using assms by (auto simp: tempo_consistent_def seq_set_bpm_seqs seq_set_bpm_chans)

lemma page_tempo_consistent: "tempo_consistent page_world 0"
proof -
  have cs: "channels (seqs page_world 0) = [0, 1, 2, 3, 4, 5, 6, 7]" by code_simp
  have tempo: "priv_bpm (seqs page_world 0) = 120" by code_simp
  have durs:
    "duration (chans page_world 0) = 125" "duration (chans page_world (Suc 0)) = 125"
    "duration (chans page_world 2) = 125" "duration (chans page_world 3) = 125"
    "duration (chans page_world 4) = 125" "duration (chans page_world 5) = 125"
    "duration (chans page_world 6) = 125" "duration (chans page_world 7) = 125"
    by code_simp+
  show ?thesis by (simp add: tempo_consistent_def cs tempo durs)
qed

subsection \<open>The invariants are kept\<close>

text \<open>
  The hypotheses of the claims below are invariants of the program: the constructor of a
  channel leaves its event cache empty, the empty world has no timer, and every method
  keeps the cache coherent and the handles fresh.
\<close>

lemma constructor_events_ok: "events_ok (Channel_constructor c s sq_opt bpm_opt w) c"
  by (simp add: events_ok_def Channel_constructor_def Let_def upd_chan_def)

lemma events_ok_frame:
  assumes "events_ok w c"
      and "events (chans w' c) = events (chans w c)"
      and "sound (chans w' c) = sound (chans w c)"
      and "\<And>r. name (sounds w' r) = name (sounds w r)"
  shows "events_ok w' c"
  using assms by (simp add: events_ok_def)

lemma playBeat_other_events_ok:
  assumes "events_ok w c" and "c \<noteq> d"
  shows "events_ok (Channel_playBeat d w) c"
  using assms(1)
  by (rule events_ok_frame) (simp_all add: playBeat_chans_other assms(2) playBeat_name)

lemma clear_events_ok:
  assumes "events_ok w c"
  shows "events_ok (Channel_clear d w) c"
  using assms by (rule events_ok_frame) (simp_all add: Channel_clear_def upd_defs)

lemma loop_events_ok:
  assumes "events_ok w c"
  shows "events_ok (Channel_loop d w) c"
  using assms by (rule events_ok_frame) (simp_all add: loop_chans loop_sounds)

lemma stop_events_ok:
  assumes "events_ok w c"
  shows "events_ok (Channel_stop d w) c"
  using assms by (rule events_ok_frame) (simp_all add: stop_chans stop_sounds)

lemma sound_stop_events_ok:
  assumes "events_ok w c"
  shows "events_ok (Sound_stop r w) c"
  using assms
  by (rule events_ok_frame) (simp_all add: sound_stop_chans, simp add: Sound_defs Let_def upd_defs browser_defs)

lemma empty_handles_fresh: "handles_fresh empty_world"
  by (simp add: handles_fresh_def empty_world_def)

lemma play_task_events_ok:
  assumes "events_ok w c"
  shows "events_ok (play_task r dopt vopt w) c"
  using assms by (rule events_ok_frame) (simp_all add: play_task_frame)

lemma play_task_handles_fresh:
  assumes "handles_fresh w"
  shows "handles_fresh (play_task r dopt vopt w)"
  using assms
  by (auto simp: handles_fresh_def play_task_def uncaught_def Sound_defs Let_def upd_defs
        browser_defs)

lemma sound_stop_handles_fresh:
  assumes "handles_fresh w"
  shows "handles_fresh (Sound_stop r w)"
  using assms by (simp add: handles_fresh_def Sound_defs Let_def upd_defs browser_defs)

lemma playBeat_handles_fresh:
  assumes "handles_fresh w"
  shows "handles_fresh (Channel_playBeat c w)"
proof -
  have "next_handle (Channel_playBeat c w) = Suc (next_handle w)" by (simp add: tick_defs)
  with assms show ?thesis by (auto simp: handles_fresh_def playBeat_timers)
qed

lemma loop_handles_fresh:
  assumes "handles_fresh w"
  shows "handles_fresh (Channel_loop c w)"
  using assms by (auto simp: handles_fresh_def loop_timers loop_next_handle)

lemma stop_handles_fresh:
  assumes "handles_fresh w"
  shows "handles_fresh (Channel_stop c w)"
proof -
  have "next_handle (Channel_stop c w) = next_handle w"
    by (simp add: Channel_stop_def clearInterval_def Let_def upd_defs split: option.splits)
  with assms show ?thesis by (simp add: handles_fresh_def stop_timers)
qed

lemma set_bpm_handles_fresh:
  assumes "handles_fresh w"
  shows "handles_fresh (Channel_set_bpm c b w)"
  using assms by (simp add: handles_fresh_def set_bpm_timers set_bpm_next_handle)

lemma page_events_ok: "events_ok page_world 0" "events_ok page_world 2"
proof -
  have "events (chans page_world 0) i = None" for i by code_simp
  then show "events_ok page_world 0" by (simp add: events_ok_def)
  have "events (chans page_world 2) i = None" for i by code_simp
  then show "events_ok page_world 2" by (simp add: events_ok_def)
qed

section \<open>The claims\<close>

text \<open>
  C1. For every channel whose pattern has 16 cells, whatever its step duration (and so
  whatever the tempo it was derived from), \<open>N\<close> ticks from cursor 0 leave the cursor at
  \<open>N mod 16\<close>; and one tick from any cursor below 16 moves it to the next index, back to 0
  from index 15.
\<close>

theorem C1_cursor_after_ticks:
  assumes "length (sequence (chans w c)) = 16"
  shows "(beat (chans w c) = 0 \<longrightarrow>
            beat (chans ((Channel_playBeat c ^^ N) w) c) = N mod 16) \<and>
         (beat (chans w c) < 16 \<longrightarrow>
            beat (chans (Channel_playBeat c w) c) =
              (if beat (chans w c) = 15 then 0 else beat (chans w c) + 1))"
proof (intro conjI impI)
  assume "beat (chans w c) = 0"
  with assms ticks_beat [of w c N]
  show "beat (chans ((Channel_playBeat c ^^ N) w) c) = N mod 16" by simp
next
  assume "beat (chans w c) < 16"
  with assms show "beat (chans (Channel_playBeat c w) c) =
      (if beat (chans w c) = 15 then 0 else beat (chans w c) + 1)"
    by (auto simp: playBeat_beat)
qed

theorem C1_cursor_after_ticks_witness:
  "length (sequence (chans page_world 0)) = 16 \<and> beat (chans page_world 0) = 0 \<and>
   beat (chans ((Channel_playBeat 0 ^^ 35) page_world) 0) = 3 \<and>
   beat (chans (Channel_playBeat 0 page_world) 0) = 1"
proof -
  have len: "length (sequence (chans page_world 0)) = 16" by code_simp
  have cur: "beat (chans page_world 0) = 0" by code_simp
  from C1_cursor_after_ticks [OF len, of 35] len cur show ?thesis by simp
qed

text \<open>
  C10. The wrap test of a tick is against the length of the pattern the channel holds at
  that moment, whatever that length is, and the read of the cell is total: past the end
  of the pattern the tick is a silent one. So for a pattern that is not empty, a tick from
  any cursor returns (the model is a total function) and leaves the cursor below the
  length of the pattern.
\<close>

theorem C10_cursor_stays_in_pattern:
  assumes "sequence (chans w c) \<noteq> []"
  shows "beat (chans (Channel_playBeat c w) c) < length (sequence (chans (Channel_playBeat c w) c)) \<and>
         beat (chans (Channel_playBeat c w) c) =
           (if length (sequence (chans w c)) \<le> beat (chans w c) + 1 then 0
            else beat (chans w c) + 1) \<and>
         (length (sequence (chans w c)) \<le> beat (chans w c) \<longrightarrow>
            trace (Channel_playBeat c w) = trace w @ [AudioPlay (sound (chans w c)) 0])"
proof (intro conjI impI)
  from assms have "0 < length (sequence (chans w c))" by simp
  then show "beat (chans (Channel_playBeat c w) c)
      < length (sequence (chans (Channel_playBeat c w) c))"
    by (simp add: playBeat_beat playBeat_sequence)
next
  show "beat (chans (Channel_playBeat c w) c) =
      (if length (sequence (chans w c)) \<le> beat (chans w c) + 1 then 0
       else beat (chans w c) + 1)"
    by (rule playBeat_beat)
next
  assume "length (sequence (chans w c)) \<le> beat (chans w c)"
  then have "cell_at (sequence (chans w c)) (beat (chans w c)) = None"
    by (simp add: cell_at_def)
  then show "trace (Channel_playBeat c w) = trace w @ [AudioPlay (sound (chans w c)) 0]"
    by (simp add: playBeat_trace)
qed

theorem C10_cursor_stays_in_pattern_witness:
  "sequence (chans short_pattern_world 5) \<noteq> [] \<and>
   length (sequence (chans short_pattern_world 5)) \<le> beat (chans short_pattern_world 5) \<and>
   beat (chans (Channel_playBeat 5 short_pattern_world) 5) = 0 \<and>
   beat (chans (Channel_playBeat 5 short_pattern_world) 5)
     < length (sequence (chans (Channel_playBeat 5 short_pattern_world) 5)) \<and>
   trace (Channel_playBeat 5 short_pattern_world) = [AudioPlay 5 0]"
proof -
  have pat: "sequence (chans short_pattern_world 5) = [1, 1, 0]" by code_simp
  have cur: "beat (chans short_pattern_world 5) = 7" by code_simp
  have snd5: "sound (chans short_pattern_world 5) = 5" by code_simp
  have tr: "trace short_pattern_world = []" by code_simp
  have ne: "sequence (chans short_pattern_world 5) \<noteq> []" by (simp add: pat)
  from C10_cursor_stays_in_pattern [OF ne] pat cur snd5 tr show ?thesis by auto
qed

text \<open>
  C2. One tick of a channel whose event cache is coherent. If the cell under the cursor is
  truthy (a 1), the tick adds to the trace exactly one notification, named from the name of
  the voice and the cursor, and then one firing of the voice at level 1. The name of the
  notification is a tag for the pair: no other name of a voice and no other index give the
  same name. If the cell is falsy (a 0, or no cell at all), the tick adds one firing at
  level 0 and no notification. In both cases the voice is left playing at that level and
  one stop of the voice is scheduled, with the channel's step duration less 10 ms as its
  delay.
\<close>

theorem C2_tick_notifies_and_fires:
  assumes "events_ok w c"
  shows "(if truthy (cell_at (sequence (chans w c)) (beat (chans w c)))
          then trace (Channel_playBeat c w) =
                 trace w @
                 [Dispatch (Event (event_name (name (sounds w (sound (chans w c))))
                                     (beat (chans w c)))),
                  AudioPlay (sound (chans w c)) 1] \<and>
               volume (audio (sounds (Channel_playBeat c w) (sound (chans w c)))) = 1
          else trace (Channel_playBeat c w) = trace w @ [AudioPlay (sound (chans w c)) 0] \<and>
               volume (audio (sounds (Channel_playBeat c w) (sound (chans w c)))) = 0) \<and>
         (\<forall>nm' j. event_name nm' j =
                    event_name (name (sounds w (sound (chans w c)))) (beat (chans w c)) \<longrightarrow>
                  nm' = name (sounds w (sound (chans w c))) \<and> j = beat (chans w c)) \<and>
         \<not> paused (audio (sounds (Channel_playBeat c w) (sound (chans w c)))) \<and>
         timers (Channel_playBeat c w) =
           timers w @ [\<lparr>handle = next_handle w, delay = duration (chans w c) - 10,
                        repeating = False, callback = Sound_stop_cb (sound (chans w c))\<rparr>] \<and>
         truthy (Some 1) \<and> \<not> truthy (Some 0)"
proof -
  have tag: "\<forall>nm' j. event_name nm' j =
               event_name (name (sounds w (sound (chans w c)))) (beat (chans w c)) \<longrightarrow>
             nm' = name (sounds w (sound (chans w c))) \<and> j = beat (chans w c)"
    by (auto dest: event_name_inj)
  from playBeat_trace_ok [OF assms] tag show ?thesis
    by (simp add: tick_effects_def playBeat_audio playBeat_timers)
qed

theorem C2_tick_notifies_and_fires_witness:
  "events_ok page_world 0 \<and> events_ok page_world 2 \<and> events_ok twelve_ticks_world 0 \<and>
   cell_at (sequence (chans page_world 0)) (beat (chans page_world 0)) = Some 1 \<and>
   cell_at (sequence (chans page_world 2)) (beat (chans page_world 2)) = Some 0 \<and>
   beat (chans twelve_ticks_world 0) = 12 \<and>
   cell_at (sequence (chans twelve_ticks_world 0)) (beat (chans twelve_ticks_world 0)) = Some 1 \<and>
   trace (Channel_playBeat 0 page_world) = [Dispatch (Event ''beat-hat-0''), AudioPlay 0 1] \<and>
   trace (Channel_playBeat 2 page_world) = [AudioPlay 2 0] \<and>
   trace (Channel_playBeat 0 twelve_ticks_world) =
     trace twelve_ticks_world @ [Dispatch (Event ''beat-hat-12''), AudioPlay 0 1] \<and>
   timers (Channel_playBeat 0 page_world) =
     [\<lparr>handle = 1, delay = 115, repeating = False, callback = Sound_stop_cb 0\<rparr>]"
proof -
  note ok0 = page_events_ok(1) and ok2 = page_events_ok(2)
  have ok12: "events_ok twelve_ticks_world 0"
    unfolding twelve_ticks_world_def using ok0 by (rule ticks_events_ok)
  have c0: "cell_at (sequence (chans page_world 0)) (beat (chans page_world 0)) = Some 1"
    by code_simp
  have c2: "cell_at (sequence (chans page_world 2)) (beat (chans page_world 2)) = Some 0"
    by code_simp
  have facts:
    "sound (chans page_world 0) = 0" "sound (chans page_world 2) = 2"
    "beat (chans page_world 0) = 0" "name (sounds page_world 0) = ''hat''"
    "duration (chans page_world 0) = 125" "trace page_world = []" "timers page_world = []"
    "next_handle page_world = 1"
    "sequence (chans page_world 0) = [1, 0, 1, 1, 1, 0, 1, 1, 1, 0, 1, 1, 1, 1, 1, 1]"
    by code_simp+
  have facts12:
    "sequence (chans twelve_ticks_world 0) = [1, 0, 1, 1, 1, 0, 1, 1, 1, 0, 1, 1, 1, 1, 1, 1]"
    "sound (chans twelve_ticks_world 0) = 0" "name (sounds twelve_ticks_world 0) = ''hat''"
    by (simp_all add: twelve_ticks_world_def ticks_sequence ticks_sound ticks_name facts)
  have "beat (chans twelve_ticks_world 0) = (0 + 12) mod 16"
    unfolding twelve_ticks_world_def
    using ticks_beat [of page_world 0 12] by (simp add: facts)
  then have cur12: "beat (chans twelve_ticks_world 0) = 12" by simp
  have c12: "cell_at (sequence (chans twelve_ticks_world 0)) (beat (chans twelve_ticks_world 0)) =
      Some 1"
    by (simp add: facts12 cur12 cell_at_def)
  have nm: "event_name ''hat'' 0 = ''beat-hat-0''" "event_name ''hat'' 12 = ''beat-hat-12''"
    by (simp_all add: event_name_def string_of_nat.simps)
  have t0: "trace (Channel_playBeat 0 page_world) = [Dispatch (Event ''beat-hat-0''), AudioPlay 0 1]"
    and tm0: "timers (Channel_playBeat 0 page_world) =
      [\<lparr>handle = 1, delay = 115, repeating = False, callback = Sound_stop_cb 0\<rparr>]"
    using C2_tick_notifies_and_fires [OF ok0] c0 by (simp_all add: facts nm)
  have t2: "trace (Channel_playBeat 2 page_world) = [AudioPlay 2 0]"
    using C2_tick_notifies_and_fires [OF ok2] c2 by (simp add: facts)
  have t12: "trace (Channel_playBeat 0 twelve_ticks_world) =
      trace twelve_ticks_world @ [Dispatch (Event ''beat-hat-12''), AudioPlay 0 1]"
    using C2_tick_notifies_and_fires [OF ok12] c12 by (simp add: facts12 cur12 nm)
  from ok0 ok2 ok12 c0 c2 cur12 c12 t0 t2 t12 tm0 show ?thesis by simp
qed

text \<open>
  C9. \<^verbatim>\<open>clear\<close> gives the channel a pattern of 16 cells, all 0, and changes nothing else:
  not the cursor, the timer handle, the step duration, the sound or the event cache of the
  channel, no other channel, no sound, no sequencer, no timer, and nothing is added to the
  trace. Whatever the pattern was before, any number \<open>n\<close> of ticks of the channel right
  after \<^verbatim>\<open>clear\<close> add \<open>n\<close> firings at level 0 to the trace and no notification.
\<close>

theorem C9_clear_silences:
  "sequence (chans (Channel_clear c w) c) = replicate 16 0 \<and>
   beat (chans (Channel_clear c w) c) = beat (chans w c) \<and>
   interval (chans (Channel_clear c w) c) = interval (chans w c) \<and>
   duration (chans (Channel_clear c w) c) = duration (chans w c) \<and>
   sound (chans (Channel_clear c w) c) = sound (chans w c) \<and>
   events (chans (Channel_clear c w) c) = events (chans w c) \<and>
   (\<forall>d. d \<noteq> c \<longrightarrow> chans (Channel_clear c w) d = chans w d) \<and>
   sounds (Channel_clear c w) = sounds w \<and>
   seqs (Channel_clear c w) = seqs w \<and>
   timers (Channel_clear c w) = timers w \<and>
   next_handle (Channel_clear c w) = next_handle w \<and>
   trace (Channel_clear c w) = trace w \<and>
   trace ((Channel_playBeat c ^^ n) (Channel_clear c w)) =
     trace w @ replicate n (AudioPlay (sound (chans w c)) 0) \<and>
   notifications (trace ((Channel_playBeat c ^^ n) (Channel_clear c w))) =
     notifications (trace w)"
proof -
  have frame:
    "sequence (chans (Channel_clear c w) c) = replicate 16 0"
    "sound (chans (Channel_clear c w) c) = sound (chans w c)"
    "trace (Channel_clear c w) = trace w"
    by (simp_all add: Channel_clear_def upd_defs)
  have "\<forall>i. \<not> truthy (cell_at (sequence (chans (Channel_clear c w) c)) i)"
    by (simp add: frame cell_at_zeros)
  then have ticks: "trace ((Channel_playBeat c ^^ n) (Channel_clear c w)) =
      trace w @ replicate n (AudioPlay (sound (chans w c)) 0)"
    by (simp add: silent_ticks_trace frame)
  have "notifications (trace ((Channel_playBeat c ^^ n) (Channel_clear c w))) =
      notifications (trace w)"
    by (simp add: ticks notifications_append notifications_silent)
  with ticks show ?thesis by (simp add: Channel_clear_def upd_defs)
qed

theorem C9_clear_silences_witness:
  "(1::nat) \<noteq> 0 \<and> chans (Channel_clear 0 page_world) 1 = chans page_world 1 \<and>
   sequence (chans page_world 0) = [1, 0, 1, 1, 1, 0, 1, 1, 1, 0, 1, 1, 1, 1, 1, 1] \<and>
   sequence (chans (Channel_clear 0 page_world) 0) = [0, 0, 0, 0, 0, 0, 0, 0, 0, 0, 0, 0, 0, 0, 0, 0] \<and>
   trace ((Channel_playBeat 0 ^^ 3) (Channel_clear 0 page_world)) =
     [AudioPlay 0 0, AudioPlay 0 0, AudioPlay 0 0] \<and>
   notifications (trace ((Channel_playBeat 0 ^^ 3) (Channel_clear 0 page_world))) = []"
proof -
  have facts:
    "sequence (chans page_world 0) = [1, 0, 1, 1, 1, 0, 1, 1, 1, 0, 1, 1, 1, 1, 1, 1]"
    "sound (chans page_world 0) = 0" "trace page_world = []"
    by code_simp+
  have r16: "replicate 16 (0::int) = [0, 0, 0, 0, 0, 0, 0, 0, 0, 0, 0, 0, 0, 0, 0, 0]"
    by code_simp
  have r3: "replicate 3 (AudioPlay 0 0) = [AudioPlay 0 0, AudioPlay 0 0, AudioPlay 0 0]"
    by (simp add: numeral_3_eq_3)
  from C9_clear_silences [of 0 page_world 3]
  show ?thesis by (simp add: facts r16 r3)
qed

text \<open>
  C5, as the code has it. A channel with a coherent event cache that holds the pattern
  \<open>[1,0,1,1,1,0,1,1,1,0,1,1,1,1,1,1]\<close> and whose tempo is set to 120 has the step duration
  \<open>(60 / 120) * (1000 / 4) = 125\<close> ms. Sixteen ticks from cursor 0 then add to the trace, index
  by index from 0 to 15, a firing at level 0 at the indices 1, 5 and 9 and a notification
  followed by a firing at level 1 at every other index; the notifications are those of the
  indices 0, 2, 3, 4, 6, 7, 8, 10, 11, 12, 13, 14, 15, and the cursor is back at 0.
\<close>

theorem C5_scenario_120_bpm:
  assumes "sequence (chans w c) = [1, 0, 1, 1, 1, 0, 1, 1, 1, 0, 1, 1, 1, 1, 1, 1]"
      and "beat (chans w c) = 0"
      and "events_ok w c"
  shows "(let s = sound (chans w c);
              nm = name (sounds w s);
              w0 = Channel_set_bpm c 120 w;
              w16 = (Channel_playBeat c ^^ 16) w0
          in duration (chans w0 c) = 125 \<and>
             trace w16 =
               trace w @
               concat (map (\<lambda>i. if i \<in> {1, 5, 9} then [AudioPlay s 0]
                                  else [Dispatch (Event (event_name nm i)), AudioPlay s 1])
                           [0..<16]) \<and>
             notifications (trace w16) =
               notifications (trace w) @
               map (\<lambda>i. Event (event_name nm i)) [0, 2, 3, 4, 6, 7, 8, 10, 11, 12, 13, 14, 15] \<and>
             beat (chans w16 c) = 0)"
proof -
  let ?s = "sound (chans w c)"
  let ?nm = "name (sounds w ?s)"
  let ?w0 = "Channel_set_bpm c 120 w"
  let ?w16 = "(Channel_playBeat c ^^ 16) ?w0"
  let ?pat = "[1, 0, 1, 1, 1, 0, 1, 1, 1, 0, 1, 1, 1, 1, 1, 1] :: int list"
  have sq0: "sequence (chans ?w0 c) = ?pat" using assms(1) by (simp add: set_bpm_chans)
  have cur0: "beat (chans ?w0 c) = 0" using assms(2) by (simp add: set_bpm_chans)
  have snd0: "sound (chans ?w0 c) = ?s" by (simp add: set_bpm_chans)
  have nm0: "name (sounds ?w0 ?s) = ?nm" by (simp add: set_bpm_name)
  have ok0: "events_ok ?w0 c" using assms(3) by (rule set_bpm_events_ok)
  have dur: "duration (chans ?w0 c) = 125" by (simp add: set_bpm_chans)
  have "trace ?w16 =
      trace ?w0 @ concat (map (\<lambda>j. tick_effects ?nm ?s ?pat ((0 + j) mod 16)) [0..<16])"
    using ticks_trace [OF ok0, of 16] by (simp add: sq0 cur0 snd0 nm0)
  then have tr: "trace ?w16 =
      trace w @
      concat (map (\<lambda>i. if i \<in> {1, 5, 9} then [AudioPlay ?s 0]
                         else [Dispatch (Event (event_name ?nm i)), AudioPlay ?s 1])
                  [0..<16])"
    by (simp add: set_bpm_trace upt_16 tick_effects_def cell_at_def)
  have nt: "notifications (trace ?w16) =
      notifications (trace w) @
      map (\<lambda>i. Event (event_name ?nm i)) [0, 2, 3, 4, 6, 7, 8, 10, 11, 12, 13, 14, 15]"
    by (simp add: tr upt_16 notifications_append)
  have "beat (chans ?w16 c) = (0 + 16) mod 16"
    using ticks_beat [of ?w0 c 16] by (simp add: sq0 cur0)
  then have cur: "beat (chans ?w16 c) = 0" by simp
  from dur tr nt cur show ?thesis by (simp add: Let_def)
qed

theorem C5_scenario_120_bpm_witness:
  "sequence (chans page_world 0) = [1, 0, 1, 1, 1, 0, 1, 1, 1, 0, 1, 1, 1, 1, 1, 1] \<and>
   beat (chans page_world 0) = 0 \<and> events_ok page_world 0 \<and>
   duration (chans (Channel_set_bpm 0 120 page_world) 0) = 125 \<and>
   trace ((Channel_playBeat 0 ^^ 16) (Channel_set_bpm 0 120 page_world)) =
     [Dispatch (Event ''beat-hat-0''), AudioPlay 0 1,
      AudioPlay 0 0,
      Dispatch (Event ''beat-hat-2''), AudioPlay 0 1,
      Dispatch (Event ''beat-hat-3''), AudioPlay 0 1,
      Dispatch (Event ''beat-hat-4''), AudioPlay 0 1,
      AudioPlay 0 0,
      Dispatch (Event ''beat-hat-6''), AudioPlay 0 1,
      Dispatch (Event ''beat-hat-7''), AudioPlay 0 1,
      Dispatch (Event ''beat-hat-8''), AudioPlay 0 1,
      AudioPlay 0 0,
      Dispatch (Event ''beat-hat-10''), AudioPlay 0 1,
      Dispatch (Event ''beat-hat-11''), AudioPlay 0 1,
      Dispatch (Event ''beat-hat-12''), AudioPlay 0 1,
      Dispatch (Event ''beat-hat-13''), AudioPlay 0 1,
      Dispatch (Event ''beat-hat-14''), AudioPlay 0 1,
      Dispatch (Event ''beat-hat-15''), AudioPlay 0 1] \<and>
   beat (chans ((Channel_playBeat 0 ^^ 16) (Channel_set_bpm 0 120 page_world)) 0) = 0"
proof -
  have pat: "sequence (chans page_world 0) = [1, 0, 1, 1, 1, 0, 1, 1, 1, 0, 1, 1, 1, 1, 1, 1]"
    by code_simp
  have cur: "beat (chans page_world 0) = 0" by code_simp
  note ok = page_events_ok(1)
  have facts: "sound (chans page_world 0) = 0" "name (sounds page_world 0) = ''hat''"
    "trace page_world = []"
    by code_simp+
  from C5_scenario_120_bpm [OF pat cur ok] pat cur ok
  show ?thesis
    by (simp add: Let_def facts upt_16 event_name_def string_of_nat.simps)
qed

theorem C5_step_duration_counterexample:
  "sequence (chans page_world 0) = [1, 0, 1, 1, 1, 0, 1, 1, 1, 0, 1, 1, 1, 1, 1, 1] \<and>
   duration (chans (Channel_set_bpm 0 120 page_world) 0) = 125 \<and>
   duration (chans (Channel_set_bpm 0 120 page_world) 0) \<noteq> 250"
proof -
  have "sequence (chans page_world 0) = [1, 0, 1, 1, 1, 0, 1, 1, 1, 0, 1, 1, 1, 1, 1, 1]"
    by code_simp
  then show ?thesis by (simp add: set_bpm_chans)
qed

text \<open>
  C3, as the code has it. After the setter \<^verbatim>\<open>bpm\<close> of a sequencer has run with \<open>b\<close>, in
  whatever world (timers running or not), every channel of the sequencer has the step
  duration \<open>(60 / b) * (1000 / 4)\<close>, the getter returns \<open>b\<close>, and the sequencer has the
  channels it had. So the step durations agree with the tempo of the sequencer after its
  setter and after its constructor. Starting and stopping a sequencer or a channel, a tick
  or a \<^verbatim>\<open>clear\<close> of a channel, firing and stopping a sound and the firing of a timer keep
  them in agreement. The setter \<^verbatim>\<open>bpm\<close> of a channel does not: called on a channel of the
  sequencer it keeps the agreement only when it sets the step duration the channel already
  has, and so does the setter of another sequencer that has one of the channels.
\<close>

theorem C3_tempo_propagates:
  "(\<forall>c \<in> set (channels (seqs (Sequencer_set_bpm q b w) q)).
      duration (chans (Sequencer_set_bpm q b w) c) = (60 / b) * (1000 / 4)) \<and>
   Sequencer_get_bpm q (Sequencer_set_bpm q b w) = b \<and>
   channels (seqs (Sequencer_set_bpm q b w) q) = channels (seqs w q) \<and>
   tempo_consistent (Sequencer_set_bpm q b w) q \<and>
   tempo_consistent (Sequencer_constructor q cs bpm_opt w) q \<and>
   (tempo_consistent w q \<longrightarrow>
      tempo_consistent (Sequencer_play q' w) q \<and>
      tempo_consistent (Sequencer_stop q' w) q \<and>
      tempo_consistent (Channel_loop c w) q \<and>
      tempo_consistent (Channel_stop c w) q \<and>
      tempo_consistent (Channel_playBeat c w) q \<and>
      tempo_consistent (Channel_clear c w) q \<and>
      tempo_consistent (Sound_stop r w) q \<and>
      tempo_consistent (play_task r dopt vopt w) q \<and>
      tempo_consistent (fire_timer h w) q \<and>
      (tempo_consistent (Channel_set_bpm c b' w) q \<longleftrightarrow>
         (c \<in> set (channels (seqs w q)) \<longrightarrow>
            (60 / b') * (1000 / 4) = (60 / priv_bpm (seqs w q)) * (1000 / 4))) \<and>
      (q' \<noteq> q \<longrightarrow>
         (tempo_consistent (Sequencer_set_bpm q' b' w) q \<longleftrightarrow>
            (\<forall>c \<in> set (channels (seqs w q)).
               c \<in> set (channels (seqs w q')) \<longrightarrow>
               (60 / b') * (1000 / 4) = (60 / priv_bpm (seqs w q)) * (1000 / 4)))))"
proof (intro conjI impI)
  show "\<forall>c \<in> set (channels (seqs (Sequencer_set_bpm q b w) q)).
      duration (chans (Sequencer_set_bpm q b w) c) = (60 / b) * (1000 / 4)"
    by (simp add: seq_set_bpm_seqs seq_set_bpm_chans)
  show "Sequencer_get_bpm q (Sequencer_set_bpm q b w) = b"
    by (simp add: Sequencer_get_bpm_def seq_set_bpm_seqs)
  show "channels (seqs (Sequencer_set_bpm q b w) q) = channels (seqs w q)"
    by (simp add: seq_set_bpm_seqs)
  show set: "tempo_consistent (Sequencer_set_bpm q b w) q" for b w
    by (simp add: tempo_consistent_def seq_set_bpm_seqs seq_set_bpm_chans)
  show "tempo_consistent (Sequencer_constructor q cs bpm_opt w) q"
    by (simp add: Sequencer_constructor_def Let_def set)
next
  assume tc: "tempo_consistent w q"
  show "tempo_consistent (Sequencer_play q' w) q"
    using tc by (rule tempo_consistent_frame)
      (simp_all add: Sequencer_play_def fold_loop_seqs fold_loop_duration)
  show "tempo_consistent (Sequencer_stop q' w) q"
    using tc by (rule tempo_consistent_frame)
      (simp_all add: Sequencer_stop_def fold_stop_seqs fold_stop_chans)
  show "tempo_consistent (Channel_loop c w) q"
    using tc by (rule tempo_consistent_frame) (simp_all add: loop_seqs loop_chans)
  show "tempo_consistent (Channel_stop c w) q"
    using tc by (rule tempo_consistent_frame) (simp_all add: stop_seqs stop_chans)
  show "tempo_consistent (Channel_playBeat c w) q"
    using tc by (rule tempo_consistent_frame) (simp_all add: playBeat_seqs playBeat_duration)
  show "tempo_consistent (Channel_clear c w) q"
    using tc by (rule tempo_consistent_frame) (simp_all add: Channel_clear_def upd_defs)
  show "tempo_consistent (Sound_stop r w) q"
    using tc by (rule tempo_consistent_frame) (simp_all add: sound_stop_seqs sound_stop_chans)
  show "tempo_consistent (play_task r dopt vopt w) q"
    using tc by (rule tempo_consistent_frame) (simp_all add: play_task_frame)
  show "tempo_consistent (fire_timer h w) q"
    using tc by (rule tempo_consistent_frame) (simp_all add: fire_timer_seqs fire_timer_duration)
  show "tempo_consistent (Channel_set_bpm c b' w) q \<longleftrightarrow>
      (c \<in> set (channels (seqs w q)) \<longrightarrow>
         (60 / b') * (1000 / 4) = (60 / priv_bpm (seqs w q)) * (1000 / 4))"
    using tc by (rule set_bpm_tempo_consistent)
next
  assume tc: "tempo_consistent w q" and other: "q' \<noteq> q"
  then show "tempo_consistent (Sequencer_set_bpm q' b' w) q \<longleftrightarrow>
      (\<forall>c \<in> set (channels (seqs w q)).
         c \<in> set (channels (seqs w q')) \<longrightarrow>
         (60 / b') * (1000 / 4) = (60 / priv_bpm (seqs w q)) * (1000 / 4))"
    by (rule other_seq_set_bpm_tempo_consistent)
qed

theorem C3_tempo_propagates_witness:
  "channels (seqs page_world 0) = [0, 1, 2, 3, 4, 5, 6, 7] \<and>
   tempo_consistent page_world 0 \<and>
   duration (chans (Sequencer_set_bpm 0 90 page_world) 0) = 500 / 3 \<and>
   duration (chans (Sequencer_set_bpm 0 90 page_world) 7) = 500 / 3 \<and>
   Sequencer_get_bpm 0 (Sequencer_set_bpm 0 90 page_world) = 90 \<and>
   tempo_consistent (Sequencer_set_bpm 0 90 page_world) 0 \<and>
   tempo_consistent (Sequencer_play 0 page_world) 0 \<and>
   tempo_consistent (Channel_playBeat 3 page_world) 0 \<and>
   tempo_consistent (Channel_set_bpm 3 120 page_world) 0 \<and>
   \<not> tempo_consistent (Channel_set_bpm 3 90 page_world) 0"
proof -
  have cs: "channels (seqs page_world 0) = [0, 1, 2, 3, 4, 5, 6, 7]" by code_simp
  have tempo: "priv_bpm (seqs page_world 0) = 120" by code_simp
  note tc = page_tempo_consistent
  note th = C3_tempo_propagates [where q = 0 and b = 90 and w = page_world and q' = 0 and c = 3]
  have first: "duration (chans (Sequencer_set_bpm 0 90 page_world) 0) = 500 / 3"
    "duration (chans (Sequencer_set_bpm 0 90 page_world) 7) = 500 / 3"
    "Sequencer_get_bpm 0 (Sequencer_set_bpm 0 90 page_world) = 90"
    "tempo_consistent (Sequencer_set_bpm 0 90 page_world) 0"
    using th cs by simp_all
  have kept: "tempo_consistent (Sequencer_play 0 page_world) 0"
    "tempo_consistent (Channel_playBeat 3 page_world) 0"
    using th tc by simp_all
  have same: "tempo_consistent (Channel_set_bpm 3 120 page_world) 0"
    using th [where b' = 120] tc by (simp add: tempo)
  have broken: "\<not> tempo_consistent (Channel_set_bpm 3 90 page_world) 0"
    using th [where b' = 90] tc by (simp add: tempo cs)
  from cs tc first kept same broken show ?thesis by simp
qed

text \<open>
  On the page, the tempo of channel 0 is set to 60 past the sequencer: the channel has the
  step duration 250, the sequencer still the tempo 120, whose step duration is 125.
\<close>

theorem C3_direct_channel_tempo_counterexample:
  "channels (seqs page_world 0) = [0, 1, 2, 3, 4, 5, 6, 7] \<and>
   tempo_consistent page_world 0 \<and>
   Sequencer_get_bpm 0 (Channel_set_bpm 0 60 page_world) = 120 \<and>
   (60 / 120) * (1000 / 4) = (125::real) \<and>
   duration (chans (Channel_set_bpm 0 60 page_world) 0) = 250 \<and>
   \<not> tempo_consistent (Channel_set_bpm 0 60 page_world) 0"
proof -
  have cs: "channels (seqs page_world 0) = [0, 1, 2, 3, 4, 5, 6, 7]" by code_simp
  have tempo: "priv_bpm (seqs page_world 0) = 120" by code_simp
  note tc = page_tempo_consistent
  have broken: "\<not> tempo_consistent (Channel_set_bpm 0 60 page_world) 0"
    by (simp add: set_bpm_tempo_consistent [OF tc] cs tempo)
  from cs tc broken show ?thesis
    by (simp add: Sequencer_get_bpm_def set_bpm_seqs set_bpm_chans tempo)
qed

text \<open>
  C4, as the code has it. The setter \<^verbatim>\<open>bpm\<close> of a sequencer with a tempo above 60 leaves the
  voice of every channel of the sequencer at playback rate 2. With a tempo of at most 60 it
  changes no sound at all, so the voice of every channel of the sequencer has the playback
  rate it had before the call: it remains 1 if it was 1.
\<close>

theorem C4_rate_after_tempo:
  "(b > 60 \<longrightarrow>
      (\<forall>c \<in> set (channels (seqs (Sequencer_set_bpm q b w) q)).
         playbackRate (audio (sounds (Sequencer_set_bpm q b w)
                                (sound (chans (Sequencer_set_bpm q b w) c)))) = 2)) \<and>
   (b \<le> 60 \<longrightarrow>
      sounds (Sequencer_set_bpm q b w) = sounds w \<and>
      (\<forall>c \<in> set (channels (seqs (Sequencer_set_bpm q b w) q)).
         playbackRate (audio (sounds (Sequencer_set_bpm q b w)
                                (sound (chans (Sequencer_set_bpm q b w) c)))) =
         playbackRate (audio (sounds w (sound (chans w c))))))"
proof (intro conjI impI)
  assume "b > 60"
  then show "\<forall>c \<in> set (channels (seqs (Sequencer_set_bpm q b w) q)).
      playbackRate (audio (sounds (Sequencer_set_bpm q b w)
                             (sound (chans (Sequencer_set_bpm q b w) c)))) = 2"
    by (simp add: seq_set_bpm_seqs seq_set_bpm_chans seq_set_bpm_rate_fast)
next
  assume "b \<le> 60"
  then have slow: "\<not> b > 60" by simp
  show "sounds (Sequencer_set_bpm q b w) = sounds w"
    using slow by (rule seq_set_bpm_sounds_slow)
  then show "\<forall>c \<in> set (channels (seqs (Sequencer_set_bpm q b w) q)).
      playbackRate (audio (sounds (Sequencer_set_bpm q b w)
                             (sound (chans (Sequencer_set_bpm q b w) c)))) =
      playbackRate (audio (sounds w (sound (chans w c))))"
    by (simp add: seq_set_bpm_seqs seq_set_bpm_chans)
qed

theorem C4_rate_after_tempo_witness:
  "(90::real) > 60 \<and> (60::real) \<le> 60 \<and>
   channels (seqs slow_world 0) = [0, 1] \<and>
   playbackRate (audio (sounds slow_world 0)) = 1 \<and>
   playbackRate (audio (sounds slow_world 1)) = 1 \<and>
   playbackRate (audio (sounds (Sequencer_set_bpm 0 60 slow_world) 0)) = 1 \<and>
   playbackRate (audio (sounds (Sequencer_set_bpm 0 60 slow_world) 1)) = 1 \<and>
   playbackRate (audio (sounds (Sequencer_set_bpm 0 90 slow_world) 0)) = 2 \<and>
   playbackRate (audio (sounds (Sequencer_set_bpm 0 90 slow_world) 1)) = 2"
proof -
  have cs: "channels (seqs slow_world 0) = [0, 1]" by code_simp
  have snds: "sound (chans slow_world 0) = 0" "sound (chans slow_world 1) = 1"
    "sound (chans slow_world (Suc 0)) = Suc 0"
    by code_simp+
  have rates: "playbackRate (audio (sounds slow_world 0)) = 1"
    "playbackRate (audio (sounds slow_world 1)) = 1"
    "playbackRate (audio (sounds slow_world (Suc 0))) = 1"
    by code_simp+
  have same: "sound (chans (Sequencer_set_bpm 0 b slow_world) c) = sound (chans slow_world c)"
    for b c
    by (simp add: seq_set_bpm_chans)
  from C4_rate_after_tempo [of 90 0 slow_world] C4_rate_after_tempo [of 60 0 slow_world]
  show ?thesis
    by (simp add: seq_set_bpm_seqs cs same snds rates)
qed

text \<open>
  The page's own sequencer: its channels were constructed with the default tempo 120, so
  their voices are at rate 2, and setting the tempo to 60 leaves them there.
\<close>

theorem C4_rate_stays_2_counterexample:
  "(0::real) < 60 \<and> (60::real) \<le> 60 \<and>
   channels (seqs (Sequencer_set_bpm 0 60 page_world) 0) = [0, 1, 2, 3, 4, 5, 6, 7] \<and>
   sound (chans (Sequencer_set_bpm 0 60 page_world) 0) = 0 \<and>
   playbackRate (audio (sounds (Sequencer_set_bpm 0 60 page_world) 0)) = 2 \<and>
   playbackRate (audio (sounds (Sequencer_set_bpm 0 60 page_world) 0)) \<noteq> 1"
proof -
  have cs: "channels (seqs page_world 0) = [0, 1, 2, 3, 4, 5, 6, 7]" by code_simp
  have snd0: "sound (chans page_world 0) = 0" by code_simp
  have rate: "playbackRate (audio (sounds page_world 0)) = 2" by code_simp
  have "sounds (Sequencer_set_bpm 0 60 page_world) = sounds page_world"
    by (rule seq_set_bpm_sounds_slow) simp
  then show ?thesis
    by (simp add: seq_set_bpm_seqs seq_set_bpm_chans cs snd0 rate)
qed

text \<open>
  C7. \<^verbatim>\<open>Sequencer.stop\<close> runs \<^verbatim>\<open>stop\<close> on every channel of the sequencer, in order. In
  whatever world, and wherever the cursors stand, every channel of the sequencer then has
  its cursor at 0, and no timer is left whose handle one of these channels held in
  \<^verbatim>\<open>interval\<close>: the timers removed are exactly those. One \<^verbatim>\<open>Channel.stop\<close> sets the
  cursor of its channel to 0 and removes the timer whose handle the channel holds.
\<close>

theorem C7_stop_resets_every_channel:
  "Sequencer_stop q w = fold Channel_stop (channels (seqs w q)) w \<and>
   (\<forall>c \<in> set (channels (seqs w q)).
      beat (chans (Sequencer_stop q w) c) = 0 \<and>
      (\<forall>t \<in> set (timers (Sequencer_stop q w)). interval (chans w c) \<noteq> Some (handle t))) \<and>
   timers (Sequencer_stop q w) =
     filter (\<lambda>t. \<forall>c \<in> set (channels (seqs w q)). interval (chans w c) \<noteq> Some (handle t))
       (timers w) \<and>
   channels (seqs (Sequencer_stop q w) q) = channels (seqs w q) \<and>
   beat (chans (Channel_stop c w) c) = 0 \<and>
   timers (Channel_stop c w) =
     filter (\<lambda>t. interval (chans w c) \<noteq> Some (handle t)) (timers w)"
proof -
  have tm: "timers (Sequencer_stop q w) =
      filter (\<lambda>t. \<forall>c \<in> set (channels (seqs w q)). interval (chans w c) \<noteq> Some (handle t))
        (timers w)"
    by (simp add: Sequencer_stop_def fold_stop_timers)
  have "\<forall>c \<in> set (channels (seqs w q)).
      beat (chans (Sequencer_stop q w) c) = 0 \<and>
      (\<forall>t \<in> set (timers (Sequencer_stop q w)). interval (chans w c) \<noteq> Some (handle t))"
    by (simp add: tm) (simp add: Sequencer_stop_def fold_stop_chans)
  moreover have "channels (seqs (Sequencer_stop q w) q) = channels (seqs w q)"
    by (simp add: Sequencer_stop_def fold_stop_seqs)
  moreover have "beat (chans (Channel_stop c w) c) = 0"
    by (simp add: stop_chans)
  ultimately show ?thesis
    using tm by (simp add: stop_timers) (simp add: Sequencer_stop_def)
qed

theorem C7_stop_resets_every_channel_witness:
  "channels (seqs playing_world 0) = [0, 1, 2, 3, 4, 5, 6, 7] \<and>
   beat (chans playing_world 0) = 2 \<and> beat (chans playing_world 1) = 1 \<and>
   beat (chans playing_world 2) = 0 \<and>
   interval (chans playing_world 0) = Some 1 \<and>
   beat (chans (Sequencer_stop 0 playing_world) 0) = 0 \<and>
   beat (chans (Sequencer_stop 0 playing_world) 1) = 0 \<and>
   beat (chans (Sequencer_stop 0 playing_world) 2) = 0 \<and>
   1 \<notin> handle ` set (timers (Sequencer_stop 0 playing_world))"
proof -
  have cs0: "channels (seqs page_world 0) = [0, 1, 2, 3, 4, 5, 6, 7]" by code_simp
  have cs: "channels (seqs playing_world 0) = [0, 1, 2, 3, 4, 5, 6, 7]"
    by (simp add: playing_world_def playBeat_seqs Sequencer_play_def fold_loop_seqs)
      (simp add: cs0)
  have page:
    "beat (chans page_world 0) = 0" "beat (chans page_world 1) = 0"
    "beat (chans page_world 2) = 0"
    "length (sequence (chans page_world 0)) = 16" "length (sequence (chans page_world 1)) = 16"
    "next_handle page_world = 1"
    by code_simp+
  have page': "beat (chans page_world (Suc 0)) = 0"
    "length (sequence (chans page_world (Suc 0))) = 16"
    using page by simp_all
  have b0: "beat (chans playing_world 0) = 2"
    by (simp add: playing_world_def playBeat_chans_other playBeat_beat playBeat_sequence
          Sequencer_play_def fold_loop_beat fold_loop_sequence page)
  have b1: "beat (chans playing_world 1) = 1"
    by (simp add: playing_world_def playBeat_chans_other playBeat_beat playBeat_sequence
          Sequencer_play_def fold_loop_beat fold_loop_sequence page')
  have b2: "beat (chans playing_world 2) = 0"
    by (simp add: playing_world_def playBeat_chans_other
          Sequencer_play_def fold_loop_beat page)
  have rest: "chans (fold Channel_loop [1, 2, 3, 4, 5, 6, 7] (Channel_loop 0 page_world)) 0 =
      chans (Channel_loop 0 page_world) 0"
    by (rule fold_loop_chans_other) simp
  have play: "Sequencer_play 0 page_world =
      fold Channel_loop [1, 2, 3, 4, 5, 6, 7] (Channel_loop 0 page_world)"
    by (simp add: Sequencer_play_def cs0)
  have "interval (chans (Sequencer_play 0 page_world) 0) =
      interval (chans (Channel_loop 0 page_world) 0)"
    by (simp only: play rest)
  also have "\<dots> = Some 1" by (simp add: loop_chans page)
  finally have i0: "interval (chans playing_world 0) = Some 1"
    by (simp add: playing_world_def playBeat_interval)
  have every: "\<forall>c \<in> set [0, 1, 2, 3, 4, 5, 6, 7].
      beat (chans (Sequencer_stop 0 playing_world) c) = 0 \<and>
      (\<forall>t \<in> set (timers (Sequencer_stop 0 playing_world)).
         interval (chans playing_world c) \<noteq> Some (handle t))"
    using C7_stop_resets_every_channel [of 0 playing_world 0, THEN conjunct2, THEN conjunct1]
    by (simp only: cs)
  then have zero: "beat (chans (Sequencer_stop 0 playing_world) 0) = 0"
    "beat (chans (Sequencer_stop 0 playing_world) 1) = 0"
    "beat (chans (Sequencer_stop 0 playing_world) 2) = 0"
    by simp_all
  from every have "\<forall>t \<in> set (timers (Sequencer_stop 0 playing_world)).
      interval (chans playing_world 0) \<noteq> Some (handle t)"
    by simp
  then have gone: "1 \<notin> handle ` set (timers (Sequencer_stop 0 playing_world))"
    by (auto simp: i0)
  from cs b0 b1 b2 i0 zero gone show ?thesis by simp
qed

text \<open>
  C8. Setting the tempo, on a channel or through the sequencer, in whatever world, leaves
  the table of timers and the timer handle of every channel as they are: no timer is
  cancelled, added or given another delay. \<^verbatim>\<open>loop\<close> enters one repeating timer whose
  delay is the step duration the channel has at that moment. So when a channel is started
  and its tempo is changed afterwards, its timer still has the step duration from before
  the change as its period, and that timer is the one that runs the next tick. (Inside
  that tick the voice is fired for the new step duration: the stop it schedules has the new
  duration less 10 ms as its delay.)
\<close>

theorem C8_tempo_change_keeps_timer:
  "timers (Channel_set_bpm c b v) = timers v \<and>
   timers (Sequencer_set_bpm q b v) = timers v \<and>
   interval (chans (Channel_set_bpm c b v) d) = interval (chans v d) \<and>
   interval (chans (Sequencer_set_bpm q b v) d) = interval (chans v d) \<and>
   timers (Channel_loop c w) =
     timers w @ [\<lparr>handle = next_handle w, delay = duration (chans w c), repeating = True,
                  callback = Channel_playBeat_cb c\<rparr>] \<and>
   interval (chans (Channel_loop c w) c) = Some (next_handle w) \<and>
   (handles_fresh w \<longrightarrow>
      (let w1 = Channel_loop c w;
           w2 = Channel_set_bpm c b w1;
           w3 = fire_timer (next_handle w) w2
       in w3 = Channel_playBeat c w2 \<and>
          timers w3 =
            timers w @
            [\<lparr>handle = next_handle w, delay = duration (chans w c), repeating = True,
              callback = Channel_playBeat_cb c\<rparr>,
             \<lparr>handle = Suc (next_handle w), delay = (60 / b) * (1000 / 4) - 10,
              repeating = False, callback = Sound_stop_cb (sound (chans w c))\<rparr>]))"
proof (intro conjI impI)
  show "timers (Channel_set_bpm c b v) = timers v" by (rule set_bpm_timers)
  show "timers (Sequencer_set_bpm q b v) = timers v" by (rule seq_set_bpm_timers)
  show "interval (chans (Channel_set_bpm c b v) d) = interval (chans v d)"
    by (simp add: set_bpm_chans)
  show "interval (chans (Sequencer_set_bpm q b v) d) = interval (chans v d)"
    by (simp add: seq_set_bpm_chans)
  show "timers (Channel_loop c w) =
      timers w @ [\<lparr>handle = next_handle w, delay = duration (chans w c), repeating = True,
                   callback = Channel_playBeat_cb c\<rparr>]"
    by (rule loop_timers)
  show "interval (chans (Channel_loop c w) c) = Some (next_handle w)"
    by (simp add: loop_chans)
next
  assume fresh: "handles_fresh w"
  let ?w1 = "Channel_loop c w"
  let ?w2 = "Channel_set_bpm c b ?w1"
  have unused: "\<forall>t \<in> set (timers w). handle t \<noteq> next_handle w"
    using fresh by (rule fresh_handle_unused)
  have tm2: "timers ?w2 =
      timers w @ [\<lparr>handle = next_handle w, delay = duration (chans w c), repeating = True,
                   callback = Channel_playBeat_cb c\<rparr>]"
    by (simp add: set_bpm_timers loop_timers)
  have fire: "fire_timer (next_handle w) ?w2 = Channel_playBeat c ?w2"
    using unused tm2 by (rule fire_interval_timer)
  have "timers (Channel_playBeat c ?w2) =
      timers w @
      [\<lparr>handle = next_handle w, delay = duration (chans w c), repeating = True,
        callback = Channel_playBeat_cb c\<rparr>,
       \<lparr>handle = Suc (next_handle w), delay = (60 / b) * (1000 / 4) - 10,
        repeating = False, callback = Sound_stop_cb (sound (chans w c))\<rparr>]"
    by (simp add: playBeat_timers tm2 set_bpm_chans set_bpm_next_handle loop_chans
          loop_next_handle)
  with fire show "let w1 = Channel_loop c w;
           w2 = Channel_set_bpm c b w1;
           w3 = fire_timer (next_handle w) w2
       in w3 = Channel_playBeat c w2 \<and>
          timers w3 =
            timers w @
            [\<lparr>handle = next_handle w, delay = duration (chans w c), repeating = True,
              callback = Channel_playBeat_cb c\<rparr>,
             \<lparr>handle = Suc (next_handle w), delay = (60 / b) * (1000 / 4) - 10,
              repeating = False, callback = Sound_stop_cb (sound (chans w c))\<rparr>]"
    by (simp add: Let_def)
qed

theorem C8_tempo_change_keeps_timer_witness:
  "handles_fresh page_world \<and>
   duration (chans page_world 0) = 125 \<and>
   duration (chans (Channel_set_bpm 0 60 (Channel_loop 0 page_world)) 0) = 250 \<and>
   timers (Channel_set_bpm 0 60 (Channel_loop 0 page_world)) =
     [\<lparr>handle = 1, delay = 125, repeating = True, callback = Channel_playBeat_cb 0\<rparr>] \<and>
   timers (fire_timer 1 (Channel_set_bpm 0 60 (Channel_loop 0 page_world))) =
     [\<lparr>handle = 1, delay = 125, repeating = True, callback = Channel_playBeat_cb 0\<rparr>,
      \<lparr>handle = 2, delay = 240, repeating = False, callback = Sound_stop_cb 0\<rparr>]"
proof -
  have facts: "timers page_world = []" "next_handle page_world = 1"
    "duration (chans page_world 0) = 125" "sound (chans page_world 0) = 0"
    by code_simp+
  have fresh: "handles_fresh page_world" by (simp add: handles_fresh_def facts)
  have dur: "duration (chans (Channel_set_bpm 0 60 (Channel_loop 0 page_world)) 0) = 250"
    by (simp add: set_bpm_chans)
  note th = C8_tempo_change_keeps_timer [of 0 60 "Channel_loop 0 page_world" 0 0 page_world]
  have kept: "timers (Channel_set_bpm 0 60 (Channel_loop 0 page_world)) =
      [\<lparr>handle = 1, delay = 125, repeating = True, callback = Channel_playBeat_cb 0\<rparr>]"
    using th [THEN conjunct1]
      th [THEN conjunct2, THEN conjunct2, THEN conjunct2, THEN conjunct2, THEN conjunct1]
    by (simp add: facts)
  have tick: "timers (fire_timer 1 (Channel_set_bpm 0 60 (Channel_loop 0 page_world))) =
      [\<lparr>handle = 1, delay = 125, repeating = True, callback = Channel_playBeat_cb 0\<rparr>,
       \<lparr>handle = 2, delay = 240, repeating = False, callback = Sound_stop_cb 0\<rparr>]"
    using th [THEN conjunct2, THEN conjunct2, THEN conjunct2, THEN conjunct2, THEN conjunct2,
              THEN conjunct2, THEN mp, OF fresh, unfolded Let_def, THEN conjunct2]
    by (simp add: facts numeral_2_eq_2)
  from fresh facts(3) dur kept tick show ?thesis by simp
qed

text \<open>
  C6, as the code has it. Take a call of \<^verbatim>\<open>play\<close> with a level in \<open>[0, 1]\<close>, run as a task at
  some time of the clock, in whatever state the sound and the rest of the world are. The
  call returns normally, leaves the sound playing at that level, and enters exactly one
  timer: a stop of this sound, not repeating, with the duration less 10 ms as its delay.
  The stop is due, and the event loop runs it, \<open>max 0 (duration - 10)\<close> ms after the call:
  for a duration of at least 10 ms exactly \<open>duration - 10\<close> ms after the call, for a shorter
  one at the time of the call, which is later than \<open>duration - 10\<close>. When the stop has run,
  the sound is at volume 0, paused and at position 0, and the timer is gone; the stop does
  this in whatever world it runs, and no length of the sample enters anywhere.
\<close>

theorem C6_fire_forces_stop:
  fixes tw :: timed and r :: ref and dopt vopt :: "real option"
  defines "d \<equiv> (case dopt of None \<Rightarrow> 1000 | Some x \<Rightarrow> x)"
  defines "level \<equiv> (case vopt of None \<Rightarrow> 1 | Some x \<Rightarrow> x)"
  defines "tw1 \<equiv> run_task (play_task r dopt vopt) tw"
  defines "tw2 \<equiv> run_timer (next_handle (inner tw)) tw1"
  assumes lo: "0 \<le> level" and hi: "level \<le> 1" and fresh: "handles_fresh (inner tw)"
  shows "(\<exists>w'. Sound_play r dopt vopt (inner tw) = Inr w' \<and> inner tw1 = w' \<and>
            timers w' =
              timers (inner tw) @
              [\<lparr>handle = next_handle (inner tw), delay = d - 10, repeating = False,
                callback = Sound_stop_cb r\<rparr>]) \<and>
         volume (audio (sounds (inner tw1) r)) = level \<and>
         \<not> paused (audio (sounds (inner tw1) r)) \<and>
         clock tw1 = clock tw \<and>
         due tw1 \<lparr>handle = next_handle (inner tw), delay = d - 10, repeating = False,
                  callback = Sound_stop_cb r\<rparr> = clock tw + max 0 (d - 10) \<and>
         clock tw2 = clock tw + max 0 (d - 10) \<and>
         (10 \<le> d \<longrightarrow> clock tw2 = clock tw + (d - 10)) \<and>
         volume (audio (sounds (inner tw2) r)) = 0 \<and>
         paused (audio (sounds (inner tw2) r)) \<and>
         currentTime (audio (sounds (inner tw2) r)) = 0 \<and>
         timers (inner tw2) = timers (inner tw) \<and>
         (\<forall>v. volume (audio (sounds (run_callback (Sound_stop_cb r) v) r)) = 0 \<and>
              paused (audio (sounds (run_callback (Sound_stop_cb r) v) r)) \<and>
              currentTime (audio (sounds (run_callback (Sound_stop_cb r) v) r)) = 0)"
proof -
  from lo hi obtain w' where ret: "Sound_play r dopt vopt (inner tw) = Inr w'"
    and tm: "timers w' =
      timers (inner tw) @
      [\<lparr>handle = next_handle (inner tw), delay = d - 10, repeating = False,
        callback = Sound_stop_cb r\<rparr>]"
    unfolding level_def d_def by (rule sound_play_in_range [of vopt r dopt "inner tw"])
  have in1: "inner tw1 = w'"
    by (simp add: tw1_def run_task_def Let_def play_task_def uncaught_def ret)
  note step = timed_play_then_stop [where tw = tw and r = r and dopt = dopt and vopt = vopt,
      OF lo [unfolded level_def] hi [unfolded level_def] fresh,
      folded tw1_def, folded tw2_def, folded d_def level_def]
  have first: "\<exists>w'. Sound_play r dopt vopt (inner tw) = Inr w' \<and> inner tw1 = w' \<and>
      timers w' =
        timers (inner tw) @
        [\<lparr>handle = next_handle (inner tw), delay = d - 10, repeating = False,
          callback = Sound_stop_cb r\<rparr>]"
    using ret in1 tm by simp
  have playing: "volume (audio (sounds (inner tw1) r)) = level"
    "\<not> paused (audio (sounds (inner tw1) r))"
    by (simp_all add: step(3))
  have late: "10 \<le> d \<longrightarrow> clock tw2 = clock tw + (d - 10)"
    by (simp add: step(2))
  have always: "\<forall>v. volume (audio (sounds (run_callback (Sound_stop_cb r) v) r)) = 0 \<and>
      paused (audio (sounds (run_callback (Sound_stop_cb r) v) r)) \<and>
      currentTime (audio (sounds (run_callback (Sound_stop_cb r) v) r)) = 0"
    by (simp add: sound_stop_audio)
  from first playing step(1) step(8) step(2) late step(4) step(5) step(6) step(7) always
  show ?thesis by blast
qed

theorem C6_fire_forces_stop_witness:
  "(0::real) \<le> 1 \<and> handles_fresh (inner page_timed) \<and> clock page_timed = 0 \<and>
   volume (audio (sounds (inner (run_task (play_task 3 (Some 125) None) page_timed)) 3)) = 1 \<and>
   \<not> paused (audio (sounds (inner (run_task (play_task 3 (Some 125) None) page_timed)) 3)) \<and>
   clock (run_timer 1 (run_task (play_task 3 (Some 125) None) page_timed)) = 115 \<and>
   volume (audio (sounds (inner (run_timer 1 (run_task (play_task 3 (Some 125) None)
                                                 page_timed))) 3)) = 0 \<and>
   paused (audio (sounds (inner (run_timer 1 (run_task (play_task 3 (Some 125) None)
                                                 page_timed))) 3)) \<and>
   currentTime (audio (sounds (inner (run_timer 1 (run_task (play_task 3 (Some 125) None)
                                                      page_timed))) 3)) = 0 \<and>
   timers (inner (run_timer 1 (run_task (play_task 3 (Some 125) None) page_timed))) = []"
proof -
  have facts: "timers page_world = []" "next_handle page_world = 1" by code_simp+
  have inner: "inner page_timed = page_world" "clock page_timed = 0"
    by (simp_all add: page_timed_def)
  have fresh: "handles_fresh (inner page_timed)"
    by (simp add: inner handles_fresh_def facts)
  from C6_fire_forces_stop [where tw = page_timed and r = 3 and dopt = "Some 125"
      and vopt = None, OF _ _ fresh]
  show ?thesis using fresh by (simp add: inner facts)
qed

text \<open>
  Two calls on the page's first sound when the clock starts. A firing for 5 ms, the step
  duration at 3000 beats per minute, at level 1: the stop runs at the time of the call,
  which is later than \<open>5 - 10 = -5\<close> ms after it, and until then the sound is playing at
  volume 1. A firing at level 2: the call throws, nothing is changed and no stop is
  scheduled.
\<close>

theorem C6_short_firing_counterexample:
  "(60 / 3000) * (1000 / 4) = (5::real) \<and>
   clock (run_task (play_task 0 (Some 5) (Some 1)) page_timed) = 0 \<and>
   volume (audio (sounds (inner (run_task (play_task 0 (Some 5) (Some 1)) page_timed)) 0)) = 1 \<and>
   \<not> paused (audio (sounds (inner (run_task (play_task 0 (Some 5) (Some 1)) page_timed)) 0)) \<and>
   clock (run_timer 1 (run_task (play_task 0 (Some 5) (Some 1)) page_timed)) = 0 \<and>
   clock page_timed + (5 - 10) <
     clock (run_timer 1 (run_task (play_task 0 (Some 5) (Some 1)) page_timed)) \<and>
   Sound_play 0 (Some 125) (Some 2) page_world = Inl (IndexSizeError, page_world) \<and>
   timers page_world = []"
proof -
  have facts: "timers page_world = []" "next_handle page_world = 1" by code_simp+
  have inner: "inner page_timed = page_world" "clock page_timed = 0"
    by (simp_all add: page_timed_def)
  have fresh: "handles_fresh (inner page_timed)"
    by (simp add: inner handles_fresh_def facts)
  note step = timed_play_then_stop [where tw = page_timed and r = 0 and dopt = "Some 5"
      and vopt = "Some 1", OF _ _ fresh]
  have thrown: "Sound_play 0 (Some 125) (Some 2) page_world = Inl (IndexSizeError, page_world)"
    by (rule sound_play_out_of_range) simp
  from step(1) step(2) step(3) thrown show ?thesis by (simp add: inner facts)
qed

end
